theory Spec2Isabelle
  imports Main "HOL-Library.FSet" "HOL-Library.Sublist" "HOL-Library.Word"
begin

section \<open>Tool registry (tools/config.ts)\<close>

text \<open>
  \<^verbatim>\<open>interface ToolRegistry { name; description; schema; handler; enabled }\<close>.
  The parameter schema and the handler are opaque to the registry and to the selection
  code, so their types are parameters of the record.
\<close>

record ('s, 'h) ToolRegistry =
  name :: string
  description :: string
  schema :: 's
  handler :: 'h
  enabled :: bool

text \<open>
  \<^verbatim>\<open>export const toolRegistry: Record<string, ToolRegistry> = {}\<close>: a JavaScript object
  used as a dictionary. \<^verbatim>\<open>Object.entries\<close> walks its string keys in insertion order, each
  key once, so the registry is the list of its entries in that order.
\<close>

type_synonym ('s, 'h) registry = "(string \<times> ('s, 'h) ToolRegistry) list"

text \<open>
  \<^verbatim>\<open>toolRegistry[id] = {...}\<close>: assigning to an existing key replaces the value and keeps
  the key's position; a new key goes to the end.
\<close>

fun register :: "string \<Rightarrow> ('s, 'h) ToolRegistry \<Rightarrow> ('s, 'h) registry \<Rightarrow> ('s, 'h) registry" where
  "register toolId tool [] = [(toolId, tool)]"
| "register toolId tool ((k, v) # rest) =
     (if k = toolId then (k, tool) # rest else (k, v) # register toolId tool rest)"

section \<open>Protocol server shim\<close>

text \<open>
  \<^verbatim>\<open>server.tool(name, description, schema, handler)\<close> belongs to the external framework;
  the model keeps the list of bindings made so far, in call order.
\<close>

type_synonym ('s, 'h) McpServer = "(string \<times> string \<times> 's \<times> 'h) list"

definition server_tool ::
  "string \<Rightarrow> string \<Rightarrow> 's \<Rightarrow> 'h \<Rightarrow> ('s, 'h) McpServer \<Rightarrow> ('s, 'h) McpServer" where
  "server_tool n d s h server = server @ [(n, d, s, h)]"

section \<open>Activation selector\<close>

text \<open>
  \<^verbatim>\<open>ExaServer.setupTools\<close> (index.ts, registry version): the loop over
  \<^verbatim>\<open>Object.entries(toolRegistry)\<close>, threading the server and the
  \<^verbatim>\<open>registeredTools\<close> array. \<^verbatim>\<open>specifiedTools\<close> is a \<^verbatim>\<open>Set<string>\<close>.
\<close>

fun setupTools_loop ::
  "string fset \<Rightarrow> ('s, 'h) registry \<Rightarrow> ('s, 'h) McpServer \<times> string list
     \<Rightarrow> ('s, 'h) McpServer \<times> string list" where
  "setupTools_loop specifiedTools [] (server, registeredTools) = (server, registeredTools)"
| "setupTools_loop specifiedTools ((toolId, tool) # rest) (server, registeredTools) =
     (let shouldRegister =
            (if fcard specifiedTools > 0 then toolId |\<in>| specifiedTools else enabled tool)
      in if shouldRegister
         then setupTools_loop specifiedTools rest
                (server_tool (name tool) (description tool) (schema tool) (handler tool) server,
                 registeredTools @ [toolId])
         else setupTools_loop specifiedTools rest (server, registeredTools))"

definition setupTools ::
  "string fset \<Rightarrow> ('s, 'h) registry \<Rightarrow> ('s, 'h) McpServer \<Rightarrow> ('s, 'h) McpServer \<times> string list" where
  "setupTools specifiedTools toolRegistry server =
     setupTools_loop specifiedTools toolRegistry (server, [])"

text \<open>
  \<^verbatim>\<open>registerEnabledTools(server, enabledTools, disabledTools)\<close> (tools/config.ts, the
  version with an exclude set).
\<close>

fun registerEnabledTools_loop ::
  "string fset \<Rightarrow> string fset \<Rightarrow> ('s, 'h) registry \<Rightarrow> ('s, 'h) McpServer \<times> string list
     \<Rightarrow> ('s, 'h) McpServer \<times> string list" where
  "registerEnabledTools_loop enabledTools disabledTools [] (server, registeredTools) =
     (server, registeredTools)"
| "registerEnabledTools_loop enabledTools disabledTools ((toolId, tool) # rest)
       (server, registeredTools) =
     (let shouldRegister =
            ((toolId |\<in>| enabledTools \<or> (fcard enabledTools = 0 \<and> enabled tool))
             \<and> \<not> toolId |\<in>| disabledTools)
      in if shouldRegister
         then registerEnabledTools_loop enabledTools disabledTools rest
                (server_tool (name tool) (description tool) (schema tool) (handler tool) server,
                 registeredTools @ [toolId])
         else registerEnabledTools_loop enabledTools disabledTools rest (server, registeredTools))"

definition registerEnabledTools ::
  "('s, 'h) McpServer \<Rightarrow> string fset \<Rightarrow> string fset \<Rightarrow> ('s, 'h) registry
     \<Rightarrow> ('s, 'h) McpServer \<times> string list" where
  "registerEnabledTools server enabledTools disabledTools toolRegistry =
     registerEnabledTools_loop enabledTools disabledTools toolRegistry (server, [])"

text \<open>
  The registry as index.ts (version 0.3.2) finds it: tools/index.ts imports webSearch,
  researchPaperSearch, twitterSearch, companyResearch and crawling, in this order, and each
  module assigns its entry when it is loaded. Schema and handler are left abstract here.
\<close>

definition web_search_tool :: "(unit, unit) ToolRegistry" where
  "web_search_tool = \<lparr>name = ''web_search'',
     description = ''Search the web using Exa AI - performs real-time web searches and can scrape content from specific URLs. Supports configurable result counts and returns the content from the most relevant websites.'',
     schema = (), handler = (), enabled = True\<rparr>"

definition research_paper_search_tool :: "(unit, unit) ToolRegistry" where
  "research_paper_search_tool = \<lparr>name = ''research_paper_search'',
     description = ''Search for research papers using Exa AI - performs targeted academic paper searches with a focus on research content. Returns detailed information about relevant academic papers including titles, authors, publication dates, and content excerpts.'',
     schema = (), handler = (), enabled = True\<rparr>"

definition twitter_search_tool :: "(unit, unit) ToolRegistry" where
  "twitter_search_tool = \<lparr>name = ''twitter_search'',
     description = ''Search Twitter/X.com posts and accounts using Exa AI - performs targeted searches of Twitter (X.com) content including tweets, profiles, and discussions. Returns relevant tweets, profile information, and conversation threads based on your query. You can search for a user by x.com/username or from:username'',
     schema = (), handler = (), enabled = False\<rparr>"

definition company_research_tool :: "(unit, unit) ToolRegistry" where
  "company_research_tool = \<lparr>name = ''company_research'',
     description = ''Research companies using Exa AI - performs targeted searches of company websites to gather comprehensive information about businesses. Returns detailed information from company websites including about pages, pricing, FAQs, blogs, and other relevant content. Specify the company URL and optionally target specific sections of their website.'',
     schema = (), handler = (), enabled = False\<rparr>"

definition crawling_tool :: "(unit, unit) ToolRegistry" where
  "crawling_tool = \<lparr>name = ''crawling'',
     description = ''Extract content from specific URLs using Exa AI - performs targeted crawling of web pages to retrieve their full content. Useful for reading articles, PDFs, or any web page when you have the exact URL. Returns the complete text content of the specified URL.'',
     schema = (), handler = (), enabled = False\<rparr>"

definition loaded_registry :: "(unit, unit) registry" where
  "loaded_registry =
     register ''crawling'' crawling_tool
       (register ''company_research'' company_research_tool
         (register ''twitter_search'' twitter_search_tool
           (register ''research_paper_search'' research_paper_search_tool
             (register ''web_search'' web_search_tool []))))"

text \<open>What \<^verbatim>\<open>server.tool\<close> receives for a registry entry.\<close>

definition binding :: "string \<times> ('s, 'h) ToolRegistry \<Rightarrow> string \<times> string \<times> 's \<times> 'h" where
  "binding e = (name (snd e), description (snd e), schema (snd e), handler (snd e))"

text \<open>The selection rule of each version, as a predicate on one registry entry.\<close>

definition selected :: "string fset \<Rightarrow> string \<times> ('s, 'h) ToolRegistry \<Rightarrow> bool" where
  "selected includeIds e =
     (if includeIds = {||} then enabled (snd e) else fst e |\<in>| includeIds)"

definition selected_excl ::
  "string fset \<Rightarrow> string fset \<Rightarrow> string \<times> ('s, 'h) ToolRegistry \<Rightarrow> bool" where
  "selected_excl includeIds excludeIds e =
     (selected includeIds e \<and> fst e |\<notin>| excludeIds)"

section \<open>JavaScript values\<close>

text \<open>
  The values that cross the HTTP boundary are parsed JSON. Object keys are unique and keep
  their order. A property that is absent (\<^verbatim>\<open>undefined\<close>) is \<open>None\<close>. A number is a
  safe integer, from \<open>- 2 ^ 53\<close> up to but not including \<open>2 ^ 53\<close>, held as a 54-bit word
  and read as signed (\<open>sint\<close>): these are the integers that JavaScript holds exactly and
  prints in plain decimal. A body containing any other number (a fraction, a larger
  magnitude) is not a value of this type; the handlers never compute with such numbers.
\<close>

datatype json =
    JNull
  | JBool bool
  | JNum "54 word"
  | JStr string
  | JArr "json list"
  | JObj "(string \<times> json) list"

text \<open>Truthiness, as \<^verbatim>\<open>!x\<close>, \<^verbatim>\<open>x || y\<close> and \<^verbatim>\<open>if (x)\<close> test it.\<close>

fun truthy :: "json \<Rightarrow> bool" where
  "truthy JNull = False"
| "truthy (JBool b) = b"
| "truthy (JNum n) = (n \<noteq> 0)"
| "truthy (JStr s) = (s \<noteq> [])"
| "truthy (JArr xs) = True"
| "truthy (JObj kvs) = True"

definition truthy_opt :: "json option \<Rightarrow> bool" where
  "truthy_opt v = (case v of None \<Rightarrow> False | Some x \<Rightarrow> truthy x)"

text \<open>
  Property read \<^verbatim>\<open>v.k\<close> on a value that is neither \<^verbatim>\<open>null\<close> nor \<^verbatim>\<open>undefined\<close>
  (every read in the source is guarded), for the keys the source reads
  (\<^verbatim>\<open>results\<close>, \<^verbatim>\<open>message\<close>, \<^verbatim>\<open>length\<close>), none of which an object inherits: an object
  gives the value stored under the key, arrays and strings have \<^verbatim>\<open>length\<close> (an array
  has fewer than \<open>2 ^ 32\<close> elements), anything else gives \<^verbatim>\<open>undefined\<close>.
\<close>

fun get_prop :: "string \<Rightarrow> json \<Rightarrow> json option" where
  "get_prop k (JObj kvs) = map_of kvs k"
| "get_prop k (JArr xs) = (if k = ''length'' then Some (JNum (of_nat (length xs))) else None)"
| "get_prop k (JStr s) = (if k = ''length'' then Some (JNum (of_nat (length s))) else None)"
| "get_prop k v = None"

text \<open>Optional chaining \<^verbatim>\<open>v?.k\<close>.\<close>

definition opt_prop :: "string \<Rightarrow> json option \<Rightarrow> json option" where
  "opt_prop k v = (case v of None \<Rightarrow> None | Some JNull \<Rightarrow> None | Some x \<Rightarrow> get_prop k x)"

text \<open>
  Decimal rendering, as string conversion and JSON both print safe integers, HTTP status
  codes and array lengths.
\<close>

definition digit_char :: "nat \<Rightarrow> char" where
  "digit_char d = ''0123456789'' ! d"

fun show_nat :: "nat \<Rightarrow> string" where
  "show_nat n = (if n < 10 then [digit_char n] else show_nat (n div 10) @ [digit_char (n mod 10)])"

declare show_nat.simps [simp del]

definition show_int :: "int \<Rightarrow> string" where
  "show_int i = (if i < 0 then ''-'' @ show_nat (nat (- i)) else show_nat (nat i))"

text \<open>Reading a decimal numeral back, to state what \<open>show_nat\<close> prints.\<close>

definition digit_value :: "char \<Rightarrow> nat" where
  "digit_value c = of_char c - 48"

definition read_nat :: "string \<Rightarrow> nat" where
  "read_nat s = foldl (\<lambda>acc c. 10 * acc + digit_value c) 0 s"

fun join :: "string \<Rightarrow> string list \<Rightarrow> string" where
  "join sep [] = []"
| "join sep [x] = x"
| "join sep (x # y # ys) = x @ sep @ join sep (y # ys)"

text \<open>
  String conversion, as a template literal \<^verbatim>\<open>`${v}`\<close> and \<^verbatim>\<open>String(v)\<close> perform it.
  The conversion of an object calls its \<^verbatim>\<open>toString\<close>: a parsed object without a key
  \<^verbatim>\<open>toString\<close> inherits the one that prints \<^verbatim>\<open>[object Object]\<close>; with such a key,
  whose value cannot be called, the conversion throws a \<^verbatim>\<open>TypeError\<close>, which is the
  result \<open>None\<close>. An array joins the conversions of its elements with commas,
  \<^verbatim>\<open>null\<close> elements printing as nothing, and throws when one of them does.
\<close>

fun js_String :: "json \<Rightarrow> string option" where
  "js_String JNull = Some ''null''"
| "js_String (JBool b) = Some (if b then ''true'' else ''false'')"
| "js_String (JNum n) = Some (show_int (sint n))"
| "js_String (JStr s) = Some s"
| "js_String (JArr xs) =
     map_option (join '','') (those (map (\<lambda>x. if x = JNull then Some [] else js_String x) xs))"
| "js_String (JObj kvs) =
     (if map_of kvs ''toString'' = None then Some ''[object Object]'' else None)"

text \<open>The same conversion of a value that may be \<^verbatim>\<open>undefined\<close>.\<close>

definition template_text :: "json option \<Rightarrow> string option" where
  "template_text v = (case v of None \<Rightarrow> Some ''undefined'' | Some x \<Rightarrow> js_String x)"

text \<open>The message of the \<^verbatim>\<open>TypeError\<close> that Node throws when the conversion fails.\<close>

definition TypeError_message :: string where
  "TypeError_message = ''Cannot convert object to primitive value''"

text \<open>
  \<^verbatim>\<open>JSON.stringify(value, null, 2)\<close>: strings are quoted and escaped, arrays and objects
  are broken over lines with two more spaces of indentation per level, and the empty array
  and the empty object stay on one line.
\<close>

definition hex_char :: "nat \<Rightarrow> char" where
  "hex_char d = ''0123456789abcdef'' ! d"

definition quote_char :: "char \<Rightarrow> string" where
  "quote_char c =
     (if c = CHR 0x22 then [CHR 0x5C, CHR 0x22]
      else if c = CHR 0x5C then [CHR 0x5C, CHR 0x5C]
      else if c = CHR 0x08 then [CHR 0x5C, CHR ''b'']
      else if c = CHR 0x0C then [CHR 0x5C, CHR ''f'']
      else if c = CHR 0x0A then [CHR 0x5C, CHR ''n'']
      else if c = CHR 0x0D then [CHR 0x5C, CHR ''r'']
      else if c = CHR 0x09 then [CHR 0x5C, CHR ''t'']
      else if (of_char c :: nat) < 32
        then [CHR 0x5C, CHR ''u'', CHR ''0'', CHR ''0'',
              hex_char (of_char c div 16), hex_char (of_char c mod 16)]
      else [c])"

definition quote :: "string \<Rightarrow> string" where
  "quote s = [CHR 0x22] @ concat (map quote_char s) @ [CHR 0x22]"

fun stringify :: "string \<Rightarrow> json \<Rightarrow> string" where
  "stringify ind JNull = ''null''"
| "stringify ind (JBool b) = (if b then ''true'' else ''false'')"
| "stringify ind (JNum n) = show_int (sint n)"
| "stringify ind (JStr s) = quote s"
| "stringify ind (JArr xs) =
     (if xs = [] then ''[]''
      else ''['' @ [CHR 0x0A]
           @ join ('','' @ [CHR 0x0A])
               (map (\<lambda>x. (ind @ ''  '') @ stringify (ind @ ''  '') x) xs)
           @ [CHR 0x0A] @ ind @ '']'')"
| "stringify ind (JObj kvs) =
     (if kvs = [] then ''{}''
      else ''{'' @ [CHR 0x0A]
           @ join ('','' @ [CHR 0x0A])
               (map (\<lambda>kv. (ind @ ''  '') @ quote (fst kv) @ '': '' @ stringify (ind @ ''  '') (snd kv)) kvs)
           @ [CHR 0x0A] @ ind @ ''}'')"

definition JSON_stringify :: "json \<Rightarrow> string" where
  "JSON_stringify v = stringify [] v"

section \<open>Upstream requests and tool results\<close>

text \<open>
  \<^verbatim>\<open>ExaSearchRequest\<close> (types.ts), with the optional fields the handlers set.
  \<^verbatim>\<open>contents.text\<close> is either a flag or an object with \<^verbatim>\<open>maxCharacters\<close>. The fields
  \<^verbatim>\<open>type\<close> and \<^verbatim>\<open>text\<close> are written \<open>type'\<close> and \<open>text'\<close>, and the fields of
  \<^verbatim>\<open>ExaCrawlRequest\<close> carry the prefix \<open>crawl_\<close>.
\<close>

datatype text_contents = TextFlag bool | TextObject "int option"

record ExaContents =
  text' :: text_contents
  livecrawl :: "string option"
  subpages :: "int option"
  subpageTarget :: "string list option"

record ExaSearchRequest =
  query :: string
  type' :: string
  category :: "string option"
  includeDomains :: "string list option"
  excludeDomains :: "string list option"
  startPublishedDate :: "string option"
  endPublishedDate :: "string option"
  numResults :: int
  contents :: ExaContents

record ExaCrawlRequest =
  crawl_ids :: "string list"
  crawl_text :: bool
  crawl_livecrawl :: string

text \<open>
  The value a handler resolves to: \<^verbatim>\<open>{content: [{type, text}], isError?}\<close>. The fields
  of a content item are written \<open>ctype\<close> and \<open>ctext\<close>.
\<close>

record content_item =
  ctype :: string
  ctext :: string

record CallToolResult =
  content :: "content_item list"
  isError :: "bool option"

text \<open>
  What the code inside a \<^verbatim>\<open>try\<close> block can throw. An Axios error carries
  \<^verbatim>\<open>error.response\<close> (absent when no response arrived; its \<^verbatim>\<open>status\<close> is the HTTP
  status code, \<^verbatim>\<open>data\<close> the parsed body) and \<^verbatim>\<open>error.message\<close>; any other
  \<^verbatim>\<open>Error\<close>, such as the \<^verbatim>\<open>TypeError\<close> of a failed string conversion, carries its
  message; a thrown value that is not an \<^verbatim>\<open>Error\<close> (a primitive, in practice) is
  represented by the string that \<^verbatim>\<open>String(error)\<close> gives.
\<close>

record axios_response =
  status :: nat
  data :: "json option"

datatype thrown =
    AxiosError "axios_response option" string
  | JsError string
  | NonError string

text \<open>An awaited computation either returns or throws.\<close>

datatype 'a outcome = Returns 'a | Throws thrown

definition try_catch :: "'a outcome \<Rightarrow> (thrown \<Rightarrow> 'a outcome) \<Rightarrow> 'a outcome" where
  "try_catch body catch = (case body of Returns x \<Rightarrow> Returns x | Throws error \<Rightarrow> catch error)"

definition and_then :: "'a outcome \<Rightarrow> ('a \<Rightarrow> 'b outcome) \<Rightarrow> 'b outcome" where
  "and_then body k = (case body of Returns x \<Rightarrow> k x | Throws error \<Rightarrow> Throws error)"

section \<open>Configuration (tools/config.ts)\<close>

definition BASE_URL :: string where "BASE_URL = ''https://api.exa.ai''"
definition ENDPOINTS_SEARCH :: string where "ENDPOINTS_SEARCH = ''/search''"
definition DEFAULT_NUM_RESULTS :: int where "DEFAULT_NUM_RESULTS = 5"
definition DEFAULT_MAX_CHARACTERS :: int where "DEFAULT_MAX_CHARACTERS = 3000"

section \<open>Tool handlers\<close>

text \<open>
  Every handler has the same shape: build the request, \<^verbatim>\<open>await axiosInstance.post\<close>
  inside \<^verbatim>\<open>try\<close>, turn the response into a result, and turn whatever was thrown into a
  result in \<^verbatim>\<open>catch\<close>. The upstream call is the parameter \<open>post\<close>, from the endpoint
  and the request body to \<^verbatim>\<open>response.data\<close> or the thrown error. What the log lines
  write (all on the error stream) is left out, but not the exception that printing a
  value in a template literal can throw.
\<close>

text \<open>
  \<^verbatim>\<open>x || d\<close> on an optional number (the schema \<^verbatim>\<open>z.number().optional()\<close> lets zero
  through and rejects \<^verbatim>\<open>NaN\<close>), and \<^verbatim>\<open>if (s)\<close> on an optional string.
\<close>

definition or_default :: "int option \<Rightarrow> int \<Rightarrow> int" where
  "or_default x d = (case x of None \<Rightarrow> d | Some n \<Rightarrow> if n = 0 then d else n)"

definition provided :: "string option \<Rightarrow> bool" where
  "provided s = (case s of None \<Rightarrow> False | Some t \<Rightarrow> t \<noteq> [])"

definition text_result :: "string \<Rightarrow> CallToolResult" where
  "text_result t = \<lparr>content = [\<lparr>ctype = ''text'', ctext = t\<rparr>], isError = None\<rparr>"

definition error_text_result :: "string \<Rightarrow> CallToolResult" where
  "error_text_result t = \<lparr>content = [\<lparr>ctype = ''text'', ctext = t\<rparr>], isError = Some True\<rparr>"

text \<open>
  The code after the \<^verbatim>\<open>await\<close> in the search handlers:
  \<^verbatim>\<open>if (!response.data || !response.data.results) return {content: [no-results text]}\<close>,
  then \<^verbatim>\<open>logger.log(`Found ${response.data.results.length} results`)\<close>, which throws
  when the length has no string form, then the response serialised. Each handler has its
  own no-results text.
\<close>

definition relay_response :: "string \<Rightarrow> json \<Rightarrow> CallToolResult outcome" where
  "relay_response noResults response_data =
     (if \<not> truthy response_data \<or> \<not> truthy_opt (get_prop ''results'' response_data)
      then Returns (text_result noResults)
      else case template_text (opt_prop ''length'' (get_prop ''results'' response_data)) of
             None \<Rightarrow> Throws (JsError TypeError_message)
           | Some found \<Rightarrow> Returns (text_result (JSON_stringify response_data)))"

text \<open>The responses at which that log line throws.\<close>

definition found_log_throws :: "json \<Rightarrow> bool" where
  "found_log_throws response_data =
     (truthy response_data \<and> truthy_opt (get_prop ''results'' response_data)
      \<and> template_text (opt_prop ''length'' (get_prop ''results'' response_data)) = None)"

text \<open>\<^verbatim>\<open>axios.isAxiosError(error)\<close> and \<^verbatim>\<open>error instanceof Error ? error.message : String(error)\<close>.\<close>

fun isAxiosError :: "thrown \<Rightarrow> bool" where
  "isAxiosError (AxiosError response message) = True"
| "isAxiosError (JsError message) = False"
| "isAxiosError (NonError s) = False"

fun thrown_message :: "thrown \<Rightarrow> string" where
  "thrown_message (AxiosError response message) = message"
| "thrown_message (JsError message) = message"
| "thrown_message (NonError s) = s"

text \<open>
  The \<^verbatim>\<open>catch\<close> block of the registry handlers, each with its own label:
  \<^verbatim>\<open>statusCode = error.response?.status || 'unknown'\<close>,
  \<^verbatim>\<open>errorMessage = error.response?.data?.message || error.message\<close>. Both are printed in
  template literals, first in a log line and then in the result; \<open>errorMessage\<close> is the
  text that prints, or \<open>None\<close> when the conversion of the upstream message throws. That
  exception is raised inside \<^verbatim>\<open>catch\<close>, so it leaves the handler.
\<close>

definition statusCode :: "axios_response option \<Rightarrow> string" where
  "statusCode response =
     (case response of
        None \<Rightarrow> ''unknown''
      | Some r \<Rightarrow> if status r = 0 then ''unknown'' else show_nat (status r))"

definition upstream_message :: "axios_response option \<Rightarrow> json option" where
  "upstream_message response =
     (case response of None \<Rightarrow> None | Some r \<Rightarrow> opt_prop ''message'' (data r))"

definition errorMessage :: "axios_response option \<Rightarrow> string \<Rightarrow> string option" where
  "errorMessage response message =
     (case upstream_message response of
        None \<Rightarrow> Some message
      | Some m \<Rightarrow> if truthy m then js_String m else Some message)"

fun error_result :: "string \<Rightarrow> thrown \<Rightarrow> CallToolResult outcome" where
  "error_result label (AxiosError response message) =
     (case errorMessage response message of
        None \<Rightarrow> Throws (JsError TypeError_message)
      | Some printed \<Rightarrow>
          Returns (error_text_result
            (label @ '' ('' @ statusCode response @ ''): '' @ printed)))"
| "error_result label (JsError message) = Returns (error_text_result (label @ '': '' @ message))"
| "error_result label (NonError s) = Returns (error_text_result (label @ '': '' @ s))"

text \<open>Whether the \<^verbatim>\<open>catch\<close> block can print the error it caught.\<close>

fun reportable :: "thrown \<Rightarrow> bool" where
  "reportable (AxiosError response message) = (errorMessage response message \<noteq> None)"
| "reportable (JsError message) = True"
| "reportable (NonError s) = True"

definition default_contents :: "string \<Rightarrow> ExaContents" where
  "default_contents crawl =
     \<lparr>text' = TextObject (Some DEFAULT_MAX_CHARACTERS), livecrawl = Some crawl,
      subpages = None, subpageTarget = None\<rparr>"

subsection \<open>web_search (tools/webSearch.ts)\<close>

definition web_search_request :: "string \<Rightarrow> int option \<Rightarrow> ExaSearchRequest" where
  "web_search_request q n =
     \<lparr>query = q, type' = ''auto'', category = None, includeDomains = None,
      excludeDomains = None, startPublishedDate = None, endPublishedDate = None,
      numResults = or_default n DEFAULT_NUM_RESULTS,
      contents = default_contents ''always''\<rparr>"

definition web_search_handler ::
  "(string \<Rightarrow> ExaSearchRequest \<Rightarrow> json outcome) \<Rightarrow> string \<Rightarrow> int option
     \<Rightarrow> CallToolResult outcome" where
  "web_search_handler post q n =
     try_catch
       (and_then (post ENDPOINTS_SEARCH (web_search_request q n))
          (\<lambda>response_data.
             relay_response ''No search results found. Please try a different query.''
               response_data))
       (\<lambda>error. error_result ''Search error'' error)"

subsection \<open>research_paper_search (tools/researchPaperSearch.ts)\<close>

definition research_paper_search_request :: "string \<Rightarrow> int option \<Rightarrow> ExaSearchRequest" where
  "research_paper_search_request q n =
     \<lparr>query = q, type' = ''auto'', category = Some ''research paper'', includeDomains = None,
      excludeDomains = None, startPublishedDate = None, endPublishedDate = None,
      numResults = or_default n DEFAULT_NUM_RESULTS,
      contents = default_contents ''fallback''\<rparr>"

definition research_paper_search_handler ::
  "(string \<Rightarrow> ExaSearchRequest \<Rightarrow> json outcome) \<Rightarrow> string \<Rightarrow> int option
     \<Rightarrow> CallToolResult outcome" where
  "research_paper_search_handler post q n =
     try_catch
       (and_then (post ENDPOINTS_SEARCH (research_paper_search_request q n))
          (\<lambda>response_data.
             relay_response ''No research papers found. Please try a different query.''
               response_data))
       (\<lambda>error. error_result ''Research paper search error'' error)"

subsection \<open>twitter_search (tools/twitterSearch.ts)\<close>

definition twitter_search_request ::
  "string \<Rightarrow> int option \<Rightarrow> string option \<Rightarrow> string option \<Rightarrow> ExaSearchRequest" where
  "twitter_search_request q n startDate endDate =
     \<lparr>query = q, type' = ''auto'', category = None,
      includeDomains = Some [''x.com'', ''twitter.com''],
      excludeDomains = None,
      startPublishedDate = (if provided startDate then startDate else None),
      endPublishedDate = (if provided endDate then endDate else None),
      numResults = or_default n DEFAULT_NUM_RESULTS,
      contents = default_contents ''always''\<rparr>"

definition twitter_search_handler ::
  "(string \<Rightarrow> ExaSearchRequest \<Rightarrow> json outcome) \<Rightarrow> string \<Rightarrow> int option
     \<Rightarrow> string option \<Rightarrow> string option \<Rightarrow> CallToolResult outcome" where
  "twitter_search_handler post q n startDate endDate =
     try_catch
       (and_then (post ENDPOINTS_SEARCH (twitter_search_request q n startDate endDate))
          (\<lambda>response_data.
             relay_response ''No Twitter results found. Please try a different query.''
               response_data))
       (\<lambda>error. error_result ''Twitter search error'' error)"

subsection \<open>company_research (tools/companyResearch.ts)\<close>

text \<open>
  The handler also takes \<^verbatim>\<open>numResults\<close> out of its arguments but never reads it: the
  request always asks for one result. The domain it extracts from the query is only logged.
\<close>

definition company_research_request ::
  "string \<Rightarrow> int option \<Rightarrow> int option \<Rightarrow> string list option \<Rightarrow> ExaSearchRequest" where
  "company_research_request q n sub target =
     \<lparr>query = q, type' = ''auto'', category = Some ''company'', includeDomains = Some [q],
      excludeDomains = None, startPublishedDate = None, endPublishedDate = None,
      numResults = 1,
      contents =
        \<lparr>text' = TextObject (Some DEFAULT_MAX_CHARACTERS), livecrawl = Some ''always'',
         subpages = Some (or_default sub 10),
         subpageTarget =
           (case target of None \<Rightarrow> None | Some ts \<Rightarrow> if length ts > 0 then Some ts else None)\<rparr>\<rparr>"

definition company_research_handler ::
  "(string \<Rightarrow> ExaSearchRequest \<Rightarrow> json outcome) \<Rightarrow> string \<Rightarrow> int option \<Rightarrow> int option
     \<Rightarrow> string list option \<Rightarrow> CallToolResult outcome" where
  "company_research_handler post q n sub target =
     try_catch
       (and_then (post ENDPOINTS_SEARCH (company_research_request q n sub target))
          (\<lambda>response_data.
             relay_response ''No company information found. Please try a different query.''
               response_data))
       (\<lambda>error. error_result ''Company research error'' error)"

subsection \<open>competitor_finder (tools/competitorFinder.ts)\<close>

definition competitor_finder_request ::
  "string \<Rightarrow> string option \<Rightarrow> int option \<Rightarrow> ExaSearchRequest" where
  "competitor_finder_request q excludeDomain n =
     \<lparr>query = q, type' = ''auto'', category = None, includeDomains = None,
      excludeDomains =
        (case excludeDomain of None \<Rightarrow> None | Some d \<Rightarrow> if d \<noteq> [] then Some [d] else None),
      startPublishedDate = None, endPublishedDate = None,
      numResults = or_default n 10,
      contents = default_contents ''always''\<rparr>"

definition competitor_finder_handler ::
  "(string \<Rightarrow> ExaSearchRequest \<Rightarrow> json outcome) \<Rightarrow> string \<Rightarrow> string option \<Rightarrow> int option
     \<Rightarrow> CallToolResult outcome" where
  "competitor_finder_handler post q excludeDomain n =
     try_catch
       (and_then (post ENDPOINTS_SEARCH (competitor_finder_request q excludeDomain n))
          (\<lambda>response_data.
             relay_response ''No competitors found. Please try a different query.''
               response_data))
       (\<lambda>error. error_result ''Competitor finder error'' error)"

subsection \<open>crawling (tools/crawling.ts)\<close>

definition crawling_request :: "string \<Rightarrow> ExaCrawlRequest" where
  "crawling_request url = \<lparr>crawl_ids = [url], crawl_text = True, crawl_livecrawl = ''always''\<rparr>"

text \<open>
  Here the test is
  \<^verbatim>\<open>!response.data || !response.data.results || response.data.results.length === 0\<close>,
  and the log line that follows prints no value.
\<close>

definition relay_crawl_response :: "json \<Rightarrow> CallToolResult" where
  "relay_crawl_response response_data =
     (if \<not> truthy response_data \<or> \<not> truthy_opt (get_prop ''results'' response_data)
         \<or> opt_prop ''length'' (get_prop ''results'' response_data) = Some (JNum 0)
      then text_result ''No content found at the specified URL. Please check the URL and try again.''
      else text_result (JSON_stringify response_data))"

definition crawling_handler ::
  "(string \<Rightarrow> ExaCrawlRequest \<Rightarrow> json outcome) \<Rightarrow> string \<Rightarrow> CallToolResult outcome" where
  "crawling_handler post url =
     try_catch
       (and_then (post ''/contents'' (crawling_request url))
          (\<lambda>response_data. Returns (relay_crawl_response response_data)))
       (\<lambda>error. error_result ''Crawling error'' error)"

subsection \<open>exa_search\<close>

text \<open>
  The module that registers \<^verbatim>\<open>exa_search\<close>. Its handler reads
  \<^verbatim>\<open>API_CONFIG.DEFAULT_TYPE\<close> and \<^verbatim>\<open>API_CONFIG.DEFAULT_NUM_RESULTS\<close> from a version of the
  configuration that is not among the sources; both are parameters. The bound of 100 on
  \<^verbatim>\<open>numResults\<close> is part of the schema, which the framework checks before the handler
  runs.
\<close>

definition exa_search_request ::
  "string \<Rightarrow> int \<Rightarrow> string \<Rightarrow> string option \<Rightarrow> string option \<Rightarrow> int option
     \<Rightarrow> string list option \<Rightarrow> string list option \<Rightarrow> ExaSearchRequest" where
  "exa_search_request DEFAULT_TYPE DEFAULT_NUM q ty cat n incl excl =
     \<lparr>query = q,
      type' = (case ty of None \<Rightarrow> DEFAULT_TYPE | Some t \<Rightarrow> if t \<noteq> [] then t else DEFAULT_TYPE),
      category = (if provided cat then cat else None),
      includeDomains = incl,
      excludeDomains = excl,
      startPublishedDate = None, endPublishedDate = None,
      numResults = or_default n DEFAULT_NUM,
      contents = default_contents ''always''\<rparr>"

definition exa_search_handler ::
  "string \<Rightarrow> int \<Rightarrow> (string \<Rightarrow> ExaSearchRequest \<Rightarrow> json outcome) \<Rightarrow> string \<Rightarrow> string option
     \<Rightarrow> string option \<Rightarrow> int option \<Rightarrow> string list option \<Rightarrow> string list option
     \<Rightarrow> CallToolResult outcome" where
  "exa_search_handler DEFAULT_TYPE DEFAULT_NUM post q ty cat n incl excl =
     try_catch
       (and_then
          (post ENDPOINTS_SEARCH (exa_search_request DEFAULT_TYPE DEFAULT_NUM q ty cat n incl excl))
          (\<lambda>response_data.
             relay_response ''No search results found. Please try a different query.''
               response_data))
       (\<lambda>error. error_result ''Search error'' error)"

subsection \<open>search (index.ts, version 0.2.1)\<close>

text \<open>
  The single tool of the version before the registry. Its configuration has the same
  defaults (5 and 3000). The handler tracks the request id in \<^verbatim>\<open>activeRequests\<close> and
  removes it in \<^verbatim>\<open>finally\<close>; the id (time stamp and random suffix) is a parameter.
\<close>

definition search_request :: "string \<Rightarrow> int option \<Rightarrow> string option \<Rightarrow> ExaSearchRequest" where
  "search_request q n crawl =
     \<lparr>query = q, type' = ''auto'', category = None, includeDomains = None,
      excludeDomains = None, startPublishedDate = None, endPublishedDate = None,
      numResults = or_default n 5,
      contents =
        \<lparr>text' = TextObject (Some 3000),
         livecrawl = (if provided crawl then crawl else Some ''always''),
         subpages = None, subpageTarget = None\<rparr>\<rparr>"

definition search_handler ::
  "(string \<Rightarrow> ExaSearchRequest \<Rightarrow> json outcome) \<Rightarrow> string \<Rightarrow> string fset \<Rightarrow> string
     \<Rightarrow> int option \<Rightarrow> string option \<Rightarrow> CallToolResult outcome \<times> string fset" where
  "search_handler post requestId activeRequests q n crawl =
     (let active = finsert requestId activeRequests;
          result =
            try_catch
              (and_then (post ''/search'' (search_request q n crawl))
                 (\<lambda>response_data.
                    relay_response ''No search results found. Please try a different query.''
                      response_data))
              (\<lambda>error. error_result ''Search error'' error)
      in (result, active |-| {|requestId|}))"

section \<open>The first server (index.ts, version 0.1.0)\<close>

text \<open>
  One tool, \<^verbatim>\<open>search\<close>, served through the low-level request handler, with the
  \<^verbatim>\<open>recentSearches\<close> cache. \<^verbatim>\<open>CachedSearch\<close> (types.ts) has the fields
  \<^verbatim>\<open>query\<close>, \<^verbatim>\<open>response\<close>, \<^verbatim>\<open>timestamp\<close>; the first is written \<open>cached_query\<close>.
\<close>

record CachedSearch =
  cached_query :: string
  response :: json
  timestamp :: string

definition MAX_CACHED_SEARCHES :: nat where "MAX_CACHED_SEARCHES = 5"

text \<open>
  \<^verbatim>\<open>this.recentSearches.unshift(entry)\<close>, then
  \<^verbatim>\<open>if (this.recentSearches.length > MAX_CACHED_SEARCHES) this.recentSearches.pop()\<close>.
\<close>

definition cache_search :: "CachedSearch \<Rightarrow> CachedSearch list \<Rightarrow> CachedSearch list" where
  "cache_search entry recentSearches =
     (let unshifted = entry # recentSearches
      in if length unshifted > MAX_CACHED_SEARCHES then butlast unshifted else unshifted)"

text \<open>\<^verbatim>\<open>isValidSearchArgs\<close> (types.ts), on the arguments as they arrive.\<close>

definition isValidSearchArgs :: "json option \<Rightarrow> bool" where
  "isValidSearchArgs args =
     (case args of
        Some (JObj kvs) \<Rightarrow>
          (case map_of kvs ''query'' of
             Some (JStr q) \<Rightarrow>
               (case map_of kvs ''numResults'' of
                  None \<Rightarrow> True
                | Some (JNum n) \<Rightarrow> True
                | Some other \<Rightarrow> False)
           | other \<Rightarrow> False)
      | other \<Rightarrow> False)"

definition args_query :: "json option \<Rightarrow> string" where
  "args_query args =
     (case args of Some (JObj kvs) \<Rightarrow> (case map_of kvs ''query'' of Some (JStr q) \<Rightarrow> q | other \<Rightarrow> [])
      | other \<Rightarrow> [])"

definition args_numResults :: "json option \<Rightarrow> int option" where
  "args_numResults args =
     (case args of
        Some (JObj kvs) \<Rightarrow>
          (case map_of kvs ''numResults'' of Some (JNum n) \<Rightarrow> Some (sint n) | other \<Rightarrow> None)
      | other \<Rightarrow> None)"

text \<open>
  A request handler of this server ends in one of three ways: it returns a result, it
  throws an \<^verbatim>\<open>McpError\<close> of its own, or an error leaves its \<^verbatim>\<open>catch\<close> block
  (\<open>Rethrown\<close>): the caught one (\<^verbatim>\<open>throw error\<close>), or the one raised while printing
  the message.
\<close>

datatype ErrorCode = InvalidRequest | MethodNotFound | InvalidParams

datatype rpc_failure = McpError ErrorCode string | Rethrown thrown

definition legacy_search_request :: "string \<Rightarrow> int option \<Rightarrow> ExaSearchRequest" where
  "legacy_search_request q n =
     \<lparr>query = q, type' = ''auto'', category = None, includeDomains = None,
      excludeDomains = None, startPublishedDate = None, endPublishedDate = None,
      numResults = or_default n 10,
      contents = \<lparr>text' = TextFlag True, livecrawl = None, subpages = None, subpageTarget = None\<rparr>\<rparr>"

text \<open>
  \<^verbatim>\<open>error.response?.data?.message ?? error.message\<close>, printed in a template literal:
  the text, or \<open>None\<close> when the conversion throws.
\<close>

definition legacy_error_message :: "axios_response option \<Rightarrow> string \<Rightarrow> string option" where
  "legacy_error_message resp message =
     (case upstream_message resp of
        None \<Rightarrow> Some message
      | Some JNull \<Rightarrow> Some message
      | Some m \<Rightarrow> js_String m)"

text \<open>
  The \<^verbatim>\<open>CallToolRequestSchema\<close> handler. Its state is \<^verbatim>\<open>this.recentSearches\<close>; the
  time stamp \<^verbatim>\<open>new Date().toISOString()\<close> is the parameter \<open>now\<close>.
\<close>

definition call_tool ::
  "(string \<Rightarrow> ExaSearchRequest \<Rightarrow> json outcome) \<Rightarrow> string \<Rightarrow> CachedSearch list \<Rightarrow> string
     \<Rightarrow> json option \<Rightarrow> (rpc_failure + CallToolResult) \<times> CachedSearch list" where
  "call_tool post now recentSearches tool_name arguments =
     (if tool_name \<noteq> ''search''
      then (Inl (McpError MethodNotFound (''Unknown tool: '' @ tool_name)), recentSearches)
      else if \<not> isValidSearchArgs arguments
      then (Inl (McpError InvalidParams ''Invalid search arguments''), recentSearches)
      else
        (let searchRequest =
               legacy_search_request (args_query arguments) (args_numResults arguments)
         in case post ''/search'' searchRequest of
              Returns response_data \<Rightarrow>
                (Inr (text_result (JSON_stringify response_data)),
                 cache_search
                   \<lparr>cached_query = query searchRequest, response = response_data,
                    timestamp = now\<rparr>
                   recentSearches)
            | Throws (AxiosError resp message) \<Rightarrow>
                (case legacy_error_message resp message of
                   None \<Rightarrow> (Inl (Rethrown (JsError TypeError_message)), recentSearches)
                 | Some printed \<Rightarrow>
                     (Inr (error_text_result (''Exa API error: '' @ printed)), recentSearches))
            | Throws error \<Rightarrow> (Inl (Rethrown error), recentSearches)))"

section \<open>Start-up (index.ts, version 0.3.2)\<close>

text \<open>
  The parsed command line: \<^verbatim>\<open>argv['tools']\<close> (an array, empty by default) and
  \<^verbatim>\<open>argv['list-tools']\<close> (a flag, false by default), written \<open>argv_tools\<close> and
  \<open>argv_list_tools\<close>.
\<close>

record Argv =
  argv_tools :: "string list"
  argv_list_tools :: bool

text \<open>
  The listing: \<^verbatim>\<open>console.log\<close> writes one line to the standard output;
  \<^verbatim>\<open>Object.entries(toolRegistry).forEach\<close> prints four lines for each entry, the last
  one empty.
\<close>

fun list_tools_loop :: "('s, 'h) registry \<Rightarrow> string list \<Rightarrow> string list" where
  "list_tools_loop [] out = out"
| "list_tools_loop ((toolId, tool) # rest) out =
     list_tools_loop rest
       (out @ [''- '' @ toolId @ '': '' @ name tool,
               ''  Description: '' @ description tool,
               ''  Enabled by default: '' @ (if enabled tool then ''Yes'' else ''No''),
               []])"

text \<open>The four lines of one entry, for the statements about the listing.\<close>

definition tool_block :: "string \<times> ('s, 'h) ToolRegistry \<Rightarrow> string list" where
  "tool_block e =
     [''- '' @ fst e @ '': '' @ name (snd e),
      ''  Description: '' @ description (snd e),
      ''  Enabled by default: '' @ (if enabled (snd e) then ''Yes'' else ''No''),
      []]"

text \<open>\<^verbatim>\<open>log\<close> (utils/logger.ts) writes to the error stream.\<close>

definition log_line :: "string \<Rightarrow> string" where
  "log_line message = ''[EXA-MCP-DEBUG] '' @ message"

text \<open>
  How the process ends: \<^verbatim>\<open>process.exit(code)\<close>, an exception that nothing catches, or
  the server left running on its transport.
\<close>

datatype process_end = Exited int | Uncaught string | Serving

record ('s, 'h) process =
  stdout :: "string list"
  stderr :: "string list"
  bound :: "('s, 'h) McpServer"
  ending :: process_end

text \<open>
  The module body of index.ts. \<open>API_KEY\<close> is \<^verbatim>\<open>process.env.EXA_API_KEY\<close>, and
  \<open>connect\<close> is what \<^verbatim>\<open>await this.server.connect(transport)\<close> throws, if anything.
\<close>

definition index_main ::
  "Argv \<Rightarrow> string option \<Rightarrow> thrown option \<Rightarrow> ('s, 'h) registry \<Rightarrow> ('s, 'h) process" where
  "index_main argv API_KEY connect toolRegistry =
     (let specifiedTools = fset_of_list (argv_tools argv)
      in if argv_list_tools argv
         then \<lparr>stdout = list_tools_loop toolRegistry [''Available tools:''], stderr = [],
               bound = [], ending = Exited 0\<rparr>
         else if \<not> provided API_KEY
         then \<lparr>stdout = [], stderr = [], bound = [],
               ending = Uncaught ''EXA_API_KEY environment variable is required''\<rparr>
         else
           (let (server, registeredTools) = setupTools specifiedTools toolRegistry [];
                started =
                  [log_line ''Server initialized'',
                   log_line (''Starting Exa MCP server with ''
                             @ show_nat (length registeredTools) @ '' tools: ''
                             @ join '', '' registeredTools)]
            in case connect of
                 None \<Rightarrow>
                   \<lparr>stdout = [],
                    stderr = started @ [log_line ''Exa Search MCP server running on stdio''],
                    bound = server, ending = Serving\<rparr>
               | Some error \<Rightarrow>
                   \<lparr>stdout = [],
                    stderr = started
                      @ [log_line (''Server initialization error: '' @ thrown_message error),
                         log_line (''Fatal server error: '' @ thrown_message error)],
                    bound = server, ending = Exited 1\<rparr>))"

section \<open>Upstream behaviours used in the statements\<close>

text \<open>An upstream call that answers every request with the same body, and one that fails
  every request with the same error.\<close>

definition answering_post :: "json \<Rightarrow> string \<Rightarrow> 'r \<Rightarrow> json outcome" where
  "answering_post response_data endpoint request = Returns response_data"

definition failing_post :: "thrown \<Rightarrow> string \<Rightarrow> 'r \<Rightarrow> json outcome" where
  "failing_post error endpoint request = Throws error"

text \<open>
  A successful search response with an empty result list:
  \<^verbatim>\<open>{requestId: "r1", autopromptString: "", resolvedSearchType: "neural", results: []}\<close>.
\<close>

definition empty_results_response :: json where
  "empty_results_response =
     JObj [(''requestId'', JStr ''r1''), (''autopromptString'', JStr []),
           (''resolvedSearchType'', JStr ''neural''), (''results'', JArr [])]"

text \<open>What \<^verbatim>\<open>JSON.stringify(data, null, 2)\<close> prints for it: one member a line.\<close>

definition empty_results_text :: string where
  "empty_results_text =
     ''{'' @ [CHR 0x0A]
     @ ''  '' @ [CHR 0x22] @ ''requestId'' @ [CHR 0x22] @ '': '' @ [CHR 0x22] @ ''r1'' @ [CHR 0x22]
     @ '','' @ [CHR 0x0A]
     @ ''  '' @ [CHR 0x22] @ ''autopromptString'' @ [CHR 0x22] @ '': '' @ [CHR 0x22, CHR 0x22]
     @ '','' @ [CHR 0x0A]
     @ ''  '' @ [CHR 0x22] @ ''resolvedSearchType'' @ [CHR 0x22] @ '': ''
     @ [CHR 0x22] @ ''neural'' @ [CHR 0x22] @ '','' @ [CHR 0x0A]
     @ ''  '' @ [CHR 0x22] @ ''results'' @ [CHR 0x22] @ '': []'' @ [CHR 0x0A]
     @ ''}''"

chapter \<open>Verified properties\<close>

section \<open>Registry and activation selector\<close>

lemma fcard_pos_iff: "0 < fcard S \<longleftrightarrow> S \<noteq> {||}"
  by (simp add: fcard_0_eq [symmetric] del: fcard_0_eq)

lemma set_register: "set (map fst (register k v reg)) = insert k (set (map fst reg))"
proof (induction reg)
  case Nil
  show ?case by simp
next
  case (Cons e reg)
  obtain i t where e: "e = (i, t)" by (cases e)
  show ?case
    unfolding e using Cons.IH by (cases "i = k") auto
qed

lemma distinct_register:
  "distinct (map fst reg) \<Longrightarrow> distinct (map fst (register k v reg))"
proof (induction reg)
  case Nil
  show ?case by simp
next
  case (Cons e reg)
  obtain i t where e: "e = (i, t)" by (cases e)
  from Cons.prems have i: "i \<notin> set (map fst reg)" and d: "distinct (map fst reg)"
    by (simp_all add: e)
  show ?case
  proof (cases "i = k")
    case True
    with i d show ?thesis by (simp add: e)
  next
    case False
    have "i \<notin> set (map fst (register k v reg))"
      using i False unfolding set_register by simp
    with False Cons.IH [OF d] show ?thesis by (simp add: e)
  qed
qed

lemma map_of_register: "map_of (register k v reg) = (map_of reg)(k \<mapsto> v)"
  by (induction reg) (auto simp: fun_eq_iff)

lemma setupTools_loop_filter:
  "setupTools_loop S reg (srv, acc) =
     (srv @ map binding (filter (selected S) reg), acc @ map fst (filter (selected S) reg))"
proof (induction reg arbitrary: srv acc)
  case Nil
  show ?case by simp
next
  case (Cons e reg)
  obtain i t where e: "e = (i, t)" by (cases e)
  show ?case
    unfolding e by (simp add: Cons.IH server_tool_def binding_def selected_def fcard_pos_iff)
qed

lemma registerEnabledTools_loop_filter:
  "registerEnabledTools_loop S D reg (srv, acc) =
     (srv @ map binding (filter (selected_excl S D) reg),
      acc @ map fst (filter (selected_excl S D) reg))"
proof (induction reg arbitrary: srv acc)
  case Nil
  show ?case by simp
next
  case (Cons e reg)
  obtain i t where e: "e = (i, t)" by (cases e)
  show ?case
    unfolding e
    by (auto simp add: Cons.IH server_tool_def binding_def selected_excl_def selected_def)
qed

lemma setupTools_filter:
  "setupTools S reg srv =
     (srv @ map binding (filter (selected S) reg), map fst (filter (selected S) reg))"
  by (simp add: setupTools_def setupTools_loop_filter)

lemma registerEnabledTools_filter:
  "registerEnabledTools srv S D reg =
     (srv @ map binding (filter (selected_excl S D) reg),
      map fst (filter (selected_excl S D) reg))"
  by (simp add: registerEnabledTools_def registerEnabledTools_loop_filter)

lemma mem_map_fst_filter:
  assumes "distinct (map fst reg)"
  shows "i \<in> set (map fst (filter P reg)) \<longleftrightarrow> (\<exists>t. map_of reg i = Some t \<and> P (i, t))"
proof
  assume "i \<in> set (map fst (filter P reg))"
  then obtain t where "(i, t) \<in> set reg" and "P (i, t)" by auto
  with assms show "\<exists>t. map_of reg i = Some t \<and> P (i, t)" by auto
next
  assume "\<exists>t. map_of reg i = Some t \<and> P (i, t)"
  then obtain t where "map_of reg i = Some t" and p: "P (i, t)" by blast
  then have "(i, t) \<in> set reg" by (simp add: map_of_SomeD)
  with p have "(i, t) \<in> set (filter P reg)" by simp
  then show "i \<in> set (map fst (filter P reg))" by force
qed

lemma filter_selected_ids:
  assumes "distinct (map fst reg)"
  shows "filter (\<lambda>e. fst e \<in> set (map fst (filter P reg))) reg = filter P reg"
proof (rule filter_cong [OF refl])
  fix e assume e: "e \<in> set reg"
  show "(fst e \<in> set (map fst (filter P reg))) = P e"
  proof
    assume "fst e \<in> set (map fst (filter P reg))"
    then obtain e' where e': "e' \<in> set reg" "P e'" "fst e' = fst e" by auto
    from assms e e'(1) e'(3) have "e' = e"
      by (metis distinct_map inj_onD)
    with e'(2) show "P e" by simp
  next
    assume "P e"
    with e show "fst e \<in> set (map fst (filter P reg))" by auto
  qed
qed

lemma enabled_tools [simp]:
  "enabled web_search_tool" "enabled research_paper_search_tool"
  "\<not> enabled twitter_search_tool" "\<not> enabled company_research_tool" "\<not> enabled crawling_tool"
  by (simp_all add: web_search_tool_def research_paper_search_tool_def twitter_search_tool_def
         company_research_tool_def crawling_tool_def)

lemma loaded_registry_entries:
  "loaded_registry =
     [(''web_search'', web_search_tool), (''research_paper_search'', research_paper_search_tool),
      (''twitter_search'', twitter_search_tool), (''company_research'', company_research_tool),
      (''crawling'', crawling_tool)]"
  by (simp add: loaded_registry_def)

text \<open>
  Claim C1. For a registry with unique keys, an id is in the list returned by
  \<^verbatim>\<open>setupTools\<close> exactly when it is a key of the registry and, if the include set is empty,
  its entry has \<^verbatim>\<open>enabled\<close> true, otherwise it is a member of the include set.
  \<^verbatim>\<open>registerEnabledTools\<close> (the version with an exclude set) enables by the same rule and
  never enables a member of the exclude set. In both, the tools bound to the server are the
  entries of the returned ids, in registry order, each once. With an empty include set and
  a registry of A (enabled) and B (not enabled) the result is exactly A; with include set
  \<open>{B}\<close> it is exactly B whatever the flags are.
\<close>

theorem activation_selector_exact:
  assumes "distinct (map fst toolRegistry)"
  shows "(toolId \<in> set (snd (setupTools includeIds toolRegistry server)) \<longleftrightarrow>
            (\<exists>tool. map_of toolRegistry toolId = Some tool \<and>
               (if includeIds = {||} then enabled tool else toolId |\<in>| includeIds)))
       \<and> (toolId \<in> set (snd (registerEnabledTools server includeIds excludeIds toolRegistry)) \<longleftrightarrow>
            (\<exists>tool. map_of toolRegistry toolId = Some tool \<and>
               (if includeIds = {||} then enabled tool else toolId |\<in>| includeIds) \<and>
               toolId |\<notin>| excludeIds))
       \<and> fst (setupTools includeIds toolRegistry server) =
           server @ map binding
             (filter (\<lambda>e. fst e \<in> set (snd (setupTools includeIds toolRegistry server))) toolRegistry)
       \<and> fst (registerEnabledTools server includeIds excludeIds toolRegistry) =
           server @ map binding
             (filter (\<lambda>e. fst e \<in> set (snd (registerEnabledTools server includeIds excludeIds toolRegistry)))
                toolRegistry)
       \<and> distinct (snd (setupTools includeIds toolRegistry server))
       \<and> distinct (snd (registerEnabledTools server includeIds excludeIds toolRegistry))
       \<and> (a \<noteq> b \<longrightarrow>
            snd (setupTools {||} [(a, ta\<lparr>enabled := True\<rparr>), (b, tb\<lparr>enabled := False\<rparr>)] server) = [a] \<and>
            snd (setupTools {|b|} [(a, ta), (b, tb)] server) = [b] \<and>
            snd (registerEnabledTools server {||} {||}
                   [(a, ta\<lparr>enabled := True\<rparr>), (b, tb\<lparr>enabled := False\<rparr>)]) = [a] \<and>
            snd (registerEnabledTools server {|b|} {||} [(a, ta), (b, tb)]) = [b])"
proof -
  have 1: "toolId \<in> set (snd (setupTools includeIds toolRegistry server)) \<longleftrightarrow>
            (\<exists>tool. map_of toolRegistry toolId = Some tool \<and>
               (if includeIds = {||} then enabled tool else toolId |\<in>| includeIds))"
    unfolding setupTools_filter snd_conv mem_map_fst_filter [OF assms]
    by (simp add: selected_def)
  have 2: "toolId \<in> set (snd (registerEnabledTools server includeIds excludeIds toolRegistry)) \<longleftrightarrow>
            (\<exists>tool. map_of toolRegistry toolId = Some tool \<and>
               (if includeIds = {||} then enabled tool else toolId |\<in>| includeIds) \<and>
               toolId |\<notin>| excludeIds)"
    unfolding registerEnabledTools_filter snd_conv mem_map_fst_filter [OF assms]
    by (simp add: selected_excl_def selected_def)
  have 3: "fst (setupTools includeIds toolRegistry server) =
           server @ map binding
             (filter (\<lambda>e. fst e \<in> set (snd (setupTools includeIds toolRegistry server))) toolRegistry)"
    unfolding setupTools_filter snd_conv fst_conv filter_selected_ids [OF assms] ..
  have 4: "fst (registerEnabledTools server includeIds excludeIds toolRegistry) =
           server @ map binding
             (filter (\<lambda>e. fst e \<in> set (snd (registerEnabledTools server includeIds excludeIds toolRegistry)))
                toolRegistry)"
    unfolding registerEnabledTools_filter snd_conv fst_conv filter_selected_ids [OF assms] ..
  have 5: "distinct (snd (setupTools includeIds toolRegistry server))"
    unfolding setupTools_filter snd_conv using assms by (rule distinct_map_filter)
  have 6: "distinct (snd (registerEnabledTools server includeIds excludeIds toolRegistry))"
    unfolding registerEnabledTools_filter snd_conv using assms by (rule distinct_map_filter)
  have 7: "a \<noteq> b \<longrightarrow>
            snd (setupTools {||} [(a, ta\<lparr>enabled := True\<rparr>), (b, tb\<lparr>enabled := False\<rparr>)] server) = [a] \<and>
            snd (setupTools {|b|} [(a, ta), (b, tb)] server) = [b] \<and>
            snd (registerEnabledTools server {||} {||}
                   [(a, ta\<lparr>enabled := True\<rparr>), (b, tb\<lparr>enabled := False\<rparr>)]) = [a] \<and>
            snd (registerEnabledTools server {|b|} {||} [(a, ta), (b, tb)]) = [b]"
    by (simp add: setupTools_filter registerEnabledTools_filter selected_excl_def selected_def)
  from 1 2 3 4 5 6 7 show ?thesis by blast
qed

theorem activation_selector_exact_witness:
  "distinct (map fst loaded_registry)
   \<and> snd (setupTools {||} loaded_registry []) = [''web_search'', ''research_paper_search'']
   \<and> snd (setupTools {|''crawling''|} loaded_registry []) = [''crawling'']
   \<and> (''crawling'' \<in> set (snd (setupTools {|''crawling''|} loaded_registry [])) \<longleftrightarrow>
        (\<exists>tool. map_of loaded_registry ''crawling'' = Some tool \<and>
           (if {|''crawling''|} = {||} then enabled tool else ''crawling'' |\<in>| {|''crawling''|})))
   \<and> (''web_search'' \<in> set (snd (registerEnabledTools [] {||} {|''web_search''|} loaded_registry)) \<longleftrightarrow>
        (\<exists>tool. map_of loaded_registry ''web_search'' = Some tool \<and>
           (if ({||} :: string fset) = {||} then enabled tool else ''web_search'' |\<in>| {||}) \<and>
           ''web_search'' |\<notin>| {|''web_search''|}))
   \<and> snd (registerEnabledTools [] {||} {|''web_search''|} loaded_registry) = [''research_paper_search'']
   \<and> ''web_search'' \<noteq> ''crawling''
   \<and> (snd (setupTools {||}
              [(''web_search'', web_search_tool\<lparr>enabled := True\<rparr>),
               (''crawling'', crawling_tool\<lparr>enabled := False\<rparr>)] []) = [''web_search'']
      \<and> snd (setupTools {|''crawling''|}
              [(''web_search'', web_search_tool), (''crawling'', crawling_tool)] []) = [''crawling'']
      \<and> snd (registerEnabledTools [] {||} {||}
              [(''web_search'', web_search_tool\<lparr>enabled := True\<rparr>),
               (''crawling'', crawling_tool\<lparr>enabled := False\<rparr>)]) = [''web_search'']
      \<and> snd (registerEnabledTools [] {|''crawling''|} {||}
              [(''web_search'', web_search_tool), (''crawling'', crawling_tool)]) = [''crawling''])"
proof -
  have d: "distinct (map fst loaded_registry)"
    by (simp add: loaded_registry_entries)
  have r: "snd (setupTools {||} loaded_registry []) = [''web_search'', ''research_paper_search'']"
    "snd (setupTools {|''crawling''|} loaded_registry []) = [''crawling'']"
    "snd (registerEnabledTools [] {||} {|''web_search''|} loaded_registry) = [''research_paper_search'']"
    by (simp_all add: setupTools_def registerEnabledTools_def loaded_registry_entries fcard_pos_iff)
  note a = activation_selector_exact [OF d, of "''crawling''" "{|''crawling''|}" "[]", THEN conjunct1]
  note b = activation_selector_exact [OF d, of "''web_search''" "{||}" "[]" "{|''web_search''|}",
             THEN conjunct2, THEN conjunct1]
  have n: "''web_search'' \<noteq> ''crawling''" by simp
  note c = activation_selector_exact [OF d, where a = "''web_search''" and b = "''crawling''"
             and ta = web_search_tool and tb = crawling_tool and server = "[]",
             THEN conjunct2, THEN conjunct2, THEN conjunct2, THEN conjunct2, THEN conjunct2,
             THEN conjunct2, THEN mp, OF n]
  show ?thesis
    by (intro conjI) (rule d r a b n c [THEN conjunct1] c [THEN conjunct2, THEN conjunct1]
          c [THEN conjunct2, THEN conjunct2, THEN conjunct1]
          c [THEN conjunct2, THEN conjunct2, THEN conjunct2])+
qed

text \<open>
  Claim C2. An id of the include set that is not a key of the registry is never enabled,
  and the selector returns normally: with the include set \<open>{X}\<close> alone nothing is bound
  and the returned list is empty, in both versions of the selector.
\<close>

theorem unknown_include_id_ignored:
  assumes "X \<notin> set (map fst toolRegistry)"
  shows "setupTools {|X|} toolRegistry server = (server, [])
       \<and> registerEnabledTools server {|X|} excludeIds toolRegistry = (server, [])
       \<and> X \<notin> set (snd (setupTools includeIds toolRegistry server))
       \<and> X \<notin> set (snd (registerEnabledTools server includeIds excludeIds toolRegistry))"
proof -
  have none: "filter (selected {|X|}) toolRegistry = []"
    using assms by (auto simp: filter_empty_conv selected_def)
  have none': "filter (selected_excl {|X|} excludeIds) toolRegistry = []"
    using assms by (auto simp: filter_empty_conv selected_excl_def selected_def)
  have "X \<notin> set (map fst (filter P toolRegistry))" for P
    using assms by auto
  then show ?thesis
    by (simp add: setupTools_filter registerEnabledTools_filter none none')
qed

theorem unknown_include_id_ignored_witness:
  "''image_search'' \<notin> set (map fst loaded_registry)
   \<and> setupTools {|''image_search''|} loaded_registry [] = ([], [])
   \<and> registerEnabledTools [] {|''image_search''|} {||} loaded_registry = ([], [])
   \<and> snd (setupTools {|''image_search'', ''crawling''|} loaded_registry []) = [''crawling'']"
proof -
  have h: "''image_search'' \<notin> set (map fst loaded_registry)"
    by (simp add: loaded_registry_entries)
  have r: "snd (setupTools {|''image_search'', ''crawling''|} loaded_registry []) = [''crawling'']"
    by (simp add: setupTools_def loaded_registry_entries fcard_pos_iff)
  note a = unknown_include_id_ignored [OF h, of "[]" "{||}", THEN conjunct1]
  note b = unknown_include_id_ignored [OF h, of "[]" "{||}", THEN conjunct2, THEN conjunct1]
  show ?thesis
    by (intro conjI) (rule h a b r)+
qed

section \<open>Tool handlers\<close>

lemma try_catch_and_then:
  "try_catch (and_then body k) c =
     (case body of
        Returns x \<Rightarrow> (case k x of Returns r \<Rightarrow> Returns r | Throws e \<Rightarrow> c e)
      | Throws e \<Rightarrow> c e)"
  by (simp add: try_catch_def and_then_def split: outcome.split)

lemma handler_cases:
  "web_search_handler post q n =
     (case post ''/search'' (web_search_request q n) of
        Returns d \<Rightarrow> (case relay_response ''No search results found. Please try a different query.'' d of
             Returns r \<Rightarrow> Returns r
           | Throws e \<Rightarrow> error_result ''Search error'' e)
      | Throws e \<Rightarrow> error_result ''Search error'' e)"
  "research_paper_search_handler post q n =
     (case post ''/search'' (research_paper_search_request q n) of
        Returns d \<Rightarrow> (case relay_response ''No research papers found. Please try a different query.'' d of
             Returns r \<Rightarrow> Returns r
           | Throws e \<Rightarrow> error_result ''Research paper search error'' e)
      | Throws e \<Rightarrow> error_result ''Research paper search error'' e)"
  "twitter_search_handler post q n startDate endDate =
     (case post ''/search'' (twitter_search_request q n startDate endDate) of
        Returns d \<Rightarrow> (case relay_response ''No Twitter results found. Please try a different query.'' d of
             Returns r \<Rightarrow> Returns r
           | Throws e \<Rightarrow> error_result ''Twitter search error'' e)
      | Throws e \<Rightarrow> error_result ''Twitter search error'' e)"
  "company_research_handler post q n sub target =
     (case post ''/search'' (company_research_request q n sub target) of
        Returns d \<Rightarrow> (case relay_response ''No company information found. Please try a different query.'' d of
             Returns r \<Rightarrow> Returns r
           | Throws e \<Rightarrow> error_result ''Company research error'' e)
      | Throws e \<Rightarrow> error_result ''Company research error'' e)"
  "competitor_finder_handler post q excludeDomain n =
     (case post ''/search'' (competitor_finder_request q excludeDomain n) of
        Returns d \<Rightarrow> (case relay_response ''No competitors found. Please try a different query.'' d of
             Returns r \<Rightarrow> Returns r
           | Throws e \<Rightarrow> error_result ''Competitor finder error'' e)
      | Throws e \<Rightarrow> error_result ''Competitor finder error'' e)"
  "crawling_handler cpost url =
     (case cpost ''/contents'' (crawling_request url) of
        Returns d \<Rightarrow> Returns (relay_crawl_response d)
      | Throws e \<Rightarrow> error_result ''Crawling error'' e)"
  "exa_search_handler dt dn post q ty cat n incl excl =
     (case post ''/search'' (exa_search_request dt dn q ty cat n incl excl) of
        Returns d \<Rightarrow> (case relay_response ''No search results found. Please try a different query.'' d of
             Returns r \<Rightarrow> Returns r
           | Throws e \<Rightarrow> error_result ''Search error'' e)
      | Throws e \<Rightarrow> error_result ''Search error'' e)"
  "fst (search_handler post requestId active q n crawl) =
     (case post ''/search'' (search_request q n crawl) of
        Returns d \<Rightarrow> (case relay_response ''No search results found. Please try a different query.'' d of
             Returns r \<Rightarrow> Returns r
           | Throws e \<Rightarrow> error_result ''Search error'' e)
      | Throws e \<Rightarrow> error_result ''Search error'' e)"
  by (simp_all add: web_search_handler_def research_paper_search_handler_def
        twitter_search_handler_def company_research_handler_def competitor_finder_handler_def
        crawling_handler_def exa_search_handler_def search_handler_def Let_def
        try_catch_and_then ENDPOINTS_SEARCH_def split: outcome.split)

lemma handler_failing:
  "web_search_handler (failing_post e) q n = error_result ''Search error'' e"
  "research_paper_search_handler (failing_post e) q n = error_result ''Research paper search error'' e"
  "twitter_search_handler (failing_post e) q n startDate endDate = error_result ''Twitter search error'' e"
  "company_research_handler (failing_post e) q n sub target = error_result ''Company research error'' e"
  "competitor_finder_handler (failing_post e) q excludeDomain n = error_result ''Competitor finder error'' e"
  "crawling_handler (failing_post e) url = error_result ''Crawling error'' e"
  "exa_search_handler dt dn (failing_post e) q ty cat n incl excl = error_result ''Search error'' e"
  "fst (search_handler (failing_post e) requestId active q n crawl) = error_result ''Search error'' e"
  by (simp_all add: handler_cases failing_post_def)

lemma handler_answering:
  "web_search_handler (answering_post d) q n =
     (case relay_response ''No search results found. Please try a different query.'' d of
        Returns r \<Rightarrow> Returns r
      | Throws e \<Rightarrow> error_result ''Search error'' e)"
  "research_paper_search_handler (answering_post d) q n =
     (case relay_response ''No research papers found. Please try a different query.'' d of
        Returns r \<Rightarrow> Returns r
      | Throws e \<Rightarrow> error_result ''Research paper search error'' e)"
  "twitter_search_handler (answering_post d) q n startDate endDate =
     (case relay_response ''No Twitter results found. Please try a different query.'' d of
        Returns r \<Rightarrow> Returns r
      | Throws e \<Rightarrow> error_result ''Twitter search error'' e)"
  "company_research_handler (answering_post d) q n sub target =
     (case relay_response ''No company information found. Please try a different query.'' d of
        Returns r \<Rightarrow> Returns r
      | Throws e \<Rightarrow> error_result ''Company research error'' e)"
  "competitor_finder_handler (answering_post d) q excludeDomain n =
     (case relay_response ''No competitors found. Please try a different query.'' d of
        Returns r \<Rightarrow> Returns r
      | Throws e \<Rightarrow> error_result ''Competitor finder error'' e)"
  "crawling_handler (answering_post d) url = Returns (relay_crawl_response d)"
  "exa_search_handler dt dn (answering_post d) q ty cat n incl excl =
     (case relay_response ''No search results found. Please try a different query.'' d of
        Returns r \<Rightarrow> Returns r
      | Throws e \<Rightarrow> error_result ''Search error'' e)"
  "fst (search_handler (answering_post d) requestId active q n crawl) =
     (case relay_response ''No search results found. Please try a different query.'' d of
        Returns r \<Rightarrow> Returns r
      | Throws e \<Rightarrow> error_result ''Search error'' e)"
  by (simp_all add: handler_cases answering_post_def)

lemma stringify_empty_results: "JSON_stringify empty_results_response = empty_results_text"
  by (simp add: JSON_stringify_def empty_results_response_def empty_results_text_def
        quote_def quote_char_def)

lemma relay_empty_results:
  "relay_response t empty_results_response = Returns (text_result empty_results_text)"
proof -
  have "get_prop ''results'' empty_results_response = Some (JArr [])"
    by (simp add: empty_results_response_def)
  moreover have "truthy empty_results_response"
    by (simp add: empty_results_response_def)
  ultimately show ?thesis
    by (simp add: relay_response_def truthy_opt_def opt_prop_def template_text_def
          stringify_empty_results)
qed

lemma relay_crawl_empty_results:
  "relay_crawl_response empty_results_response =
     text_result ''No content found at the specified URL. Please check the URL and try again.''"
  by (simp add: relay_crawl_response_def truthy_opt_def opt_prop_def empty_results_response_def)

text \<open>
  Claim C3, evaluated at a response whose result list is empty. The claim asks for the
  no-results guidance and no error flag. The search handlers test \<^verbatim>\<open>!response.data.results\<close>
  only, and an empty array is truthy: they return the serialised response (without an error
  flag). The crawling handler, which also tests \<^verbatim>\<open>results.length === 0\<close>, returns its
  guidance text.
\<close>

theorem empty_results_relayed_as_json:
  "web_search_handler (answering_post empty_results_response) ''cats'' None =
     Returns \<lparr>content = [\<lparr>ctype = ''text'', ctext = empty_results_text\<rparr>], isError = None\<rparr>
   \<and> research_paper_search_handler (answering_post empty_results_response) ''cats'' None =
     Returns \<lparr>content = [\<lparr>ctype = ''text'', ctext = empty_results_text\<rparr>], isError = None\<rparr>
   \<and> twitter_search_handler (answering_post empty_results_response) ''cats'' None None None =
     Returns \<lparr>content = [\<lparr>ctype = ''text'', ctext = empty_results_text\<rparr>], isError = None\<rparr>
   \<and> company_research_handler (answering_post empty_results_response) ''exa.ai'' None None None =
     Returns \<lparr>content = [\<lparr>ctype = ''text'', ctext = empty_results_text\<rparr>], isError = None\<rparr>
   \<and> competitor_finder_handler (answering_post empty_results_response) ''web search API'' None None =
     Returns \<lparr>content = [\<lparr>ctype = ''text'', ctext = empty_results_text\<rparr>], isError = None\<rparr>
   \<and> \<not> sublist ''Please try a different query'' empty_results_text
   \<and> crawling_handler (answering_post empty_results_response) ''exa.ai'' =
     Returns \<lparr>content = [\<lparr>ctype = ''text'',
        ctext = ''No content found at the specified URL. Please check the URL and try again.''\<rparr>],
        isError = None\<rparr>"
proof -
  have "\<not> sublist ''Please try a different query'' empty_results_text"
    unfolding empty_results_text_def by code_simp
  then show ?thesis
    by (simp add: handler_answering relay_empty_results relay_crawl_empty_results text_result_def)
qed

section \<open>Upstream failures\<close>

lemma read_nat_snoc: "read_nat (s @ [c]) = 10 * read_nat s + digit_value c"
  by (simp add: read_nat_def)

lemma digit_value_digit_char: "d < 10 \<Longrightarrow> digit_value (digit_char d) = d"
proof -
  assume "d < 10"
  then have "d \<in> {0, 1, 2, 3, 4, 5, 6, 7, 8, 9}" by auto
  then show ?thesis
    by (auto simp: digit_value_def digit_char_def)
qed

lemma digit_char_digit: "d < 10 \<Longrightarrow> digit_char d \<in> set ''0123456789''"
proof -
  assume "d < 10"
  then have "d \<in> {0, 1, 2, 3, 4, 5, 6, 7, 8, 9}" by auto
  then show ?thesis
    by (auto simp: digit_char_def)
qed

lemma digit_char_zero: "d < 10 \<Longrightarrow> digit_char d = CHR ''0'' \<longleftrightarrow> d = 0"
proof -
  assume "d < 10"
  then have "d \<in> {0, 1, 2, 3, 4, 5, 6, 7, 8, 9}" by auto
  then show ?thesis
    by (auto simp: digit_char_def)
qed

lemma read_show_nat: "read_nat (show_nat n) = n"
proof (induction n rule: show_nat.induct)
  case (1 n)
  show ?case
  proof (cases "n < 10")
    case True
    then show ?thesis
      by (subst show_nat.simps) (simp add: read_nat_def digit_value_digit_char)
  next
    case False
    with 1 have "read_nat (show_nat (n div 10)) = n div 10" by simp
    with False show ?thesis
      by (subst show_nat.simps) (simp add: read_nat_snoc digit_value_digit_char)
  qed
qed

lemma show_nat_digits: "c \<in> set (show_nat n) \<Longrightarrow> c \<in> set ''0123456789''"
proof (induction n rule: show_nat.induct)
  case (1 n)
  show ?case
  proof (cases "n < 10")
    case True
    with 1(2) have "c = digit_char n"
      by (subst (asm) show_nat.simps) simp
    with True show ?thesis
      using digit_char_digit [of n] by simp
  next
    case False
    with 1(2) have "c \<in> set (show_nat (n div 10)) \<or> c = digit_char (n mod 10)"
      by (subst (asm) show_nat.simps) auto
    then show ?thesis
    proof
      assume "c \<in> set (show_nat (n div 10))"
      with 1(1) False show ?thesis by simp
    next
      assume "c = digit_char (n mod 10)"
      then show ?thesis
        using digit_char_digit [of "n mod 10"] by simp
    qed
  qed
qed

lemma show_nat_not_empty: "show_nat n \<noteq> []"
  by (subst show_nat.simps) simp

lemma show_nat_no_leading_zero: "n \<noteq> 0 \<Longrightarrow> hd (show_nat n) \<noteq> CHR ''0''"
proof (induction n rule: show_nat.induct)
  case (1 n)
  show ?case
  proof (cases "n < 10")
    case True
    with 1(2) show ?thesis
      by (subst show_nat.simps) (simp add: digit_char_zero)
  next
    case False
    then have "n div 10 \<noteq> 0" by simp
    with 1(1) False have "hd (show_nat (n div 10)) \<noteq> CHR ''0''" by simp
    with False show ?thesis
      by (subst show_nat.simps) (simp add: show_nat_not_empty)
  qed
qed

lemma show_nat_429: "show_nat 429 = ''429''"
  by (simp add: show_nat.simps digit_char_def)

lemma statusCode_simps:
  "statusCode None = ''unknown''"
  "s \<noteq> 0 \<Longrightarrow> statusCode (Some \<lparr>status = s, data = d\<rparr>) = show_nat s"
  "statusCode (Some \<lparr>status = 0, data = d\<rparr>) = ''unknown''"
  by (simp_all add: statusCode_def)

lemma errorMessage_simps:
  "errorMessage None message = Some message"
  "opt_prop ''message'' d = None \<Longrightarrow>
     errorMessage (Some \<lparr>status = s, data = d\<rparr>) message = Some message"
  "map_of kvs ''message'' = Some (JStr m) \<Longrightarrow> m \<noteq> [] \<Longrightarrow>
     errorMessage (Some \<lparr>status = s, data = Some (JObj kvs)\<rparr>) message = Some m"
  "map_of kvs ''message'' = Some v \<Longrightarrow> truthy v \<Longrightarrow>
     errorMessage (Some \<lparr>status = s, data = Some (JObj kvs)\<rparr>) message = js_String v"
  "map_of kvs ''message'' = Some v \<Longrightarrow> \<not> truthy v \<Longrightarrow>
     errorMessage (Some \<lparr>status = s, data = Some (JObj kvs)\<rparr>) message = Some message"
  by (simp_all add: errorMessage_def upstream_message_def opt_prop_def)

lemma legacy_error_message_simps:
  "legacy_error_message None message = Some message"
  "opt_prop ''message'' d = None \<Longrightarrow>
     legacy_error_message (Some \<lparr>status = s, data = d\<rparr>) message = Some message"
  "map_of kvs ''message'' = Some JNull \<Longrightarrow>
     legacy_error_message (Some \<lparr>status = s, data = Some (JObj kvs)\<rparr>) message = Some message"
  "map_of kvs ''message'' = Some (JStr m) \<Longrightarrow>
     legacy_error_message (Some \<lparr>status = s, data = Some (JObj kvs)\<rparr>) message = Some m"
  by (simp_all add: legacy_error_message_def upstream_message_def opt_prop_def)

lemma error_result_axios:
  "errorMessage resp message = Some printed \<Longrightarrow>
     error_result label (AxiosError resp message) =
       Returns \<lparr>content = [\<lparr>ctype = ''text'',
                  ctext = label @ '' ('' @ statusCode resp @ ''): '' @ printed\<rparr>],
                isError = Some True\<rparr>"
  "errorMessage resp message = None \<Longrightarrow>
     error_result label (AxiosError resp message) = Throws (JsError TypeError_message)"
  by (simp_all add: error_text_result_def)

lemma call_tool_failing:
  assumes "isValidSearchArgs arguments"
  shows "call_tool (failing_post e) now cache ''search'' arguments =
     (case e of
        AxiosError resp message \<Rightarrow>
          (case legacy_error_message resp message of
             None \<Rightarrow> (Inl (Rethrown (JsError TypeError_message)), cache)
           | Some printed \<Rightarrow> (Inr (error_text_result (''Exa API error: '' @ printed)), cache))
      | JsError m \<Rightarrow> (Inl (Rethrown e), cache)
      | NonError m \<Rightarrow> (Inl (Rethrown e), cache))"
  using assms by (cases e) (simp_all add: call_tool_def failing_post_def)

lemma call_tool_failing_axios:
  assumes "isValidSearchArgs arguments" and "legacy_error_message resp message = Some printed"
  shows "call_tool (failing_post (AxiosError resp message)) now cache ''search'' arguments =
     (Inr \<lparr>content = [\<lparr>ctype = ''text'', ctext = ''Exa API error: '' @ printed\<rparr>],
           isError = Some True\<rparr>, cache)"
  using assms by (simp add: call_tool_failing error_text_result_def)

text \<open>
  Claim C4 says that every tool call failing with an HTTP error reports the status code,
  so that a 429 puts the text 429 into the message. The handler of version 0.1.0 prints
  \<^verbatim>\<open>Exa API error:\<close> and the message only: for a 429 whose body carries a message of its
  own, the result has no 429 in it.
\<close>

theorem legacy_http_error_without_status_counterexample:
  "call_tool
     (failing_post
        (AxiosError
           (Some \<lparr>status = 429, data = Some (JObj [(''message'', JStr ''Rate limit exceeded'')])\<rparr>)
           ''Request failed with status code 429''))
     ''2025-01-01T00:00:00.000Z'' [] ''search'' (Some (JObj [(''query'', JStr ''cats'')]))
   = (Inr \<lparr>content = [\<lparr>ctype = ''text'', ctext = ''Exa API error: Rate limit exceeded''\<rparr>],
           isError = Some True\<rparr>, [])
   \<and> \<not> sublist ''429'' ''Exa API error: Rate limit exceeded''"
proof -
  have v: "isValidSearchArgs (Some (JObj [(''query'', JStr ''cats'')]))"
    by (simp add: isValidSearchArgs_def)
  have m: "legacy_error_message
             (Some \<lparr>status = 429, data = Some (JObj [(''message'', JStr ''Rate limit exceeded'')])\<rparr>)
             ''Request failed with status code 429'' = Some ''Rate limit exceeded''"
    by (simp add: legacy_error_message_simps)
  have s: "\<not> sublist ''429'' ''Exa API error: Rate limit exceeded''"
    by code_simp
  show ?thesis
    using call_tool_failing_axios [OF v m] s by simp
qed

text \<open>
  Claim C4 as amended. When the upstream call fails with an Axios error whose message
  has a string form, every registry handler, and the search tool of version 0.2.1,
  returns a result with \<^verbatim>\<open>isError: true\<close> whose text is the handler's label, the status
  in parentheses and the message. The status is printed in decimal (digits only, no
  leading zero, reading back as the number), or is the word unknown when there is no
  response or the status is 0; a status of 429 prints as 429. The message is the
  \<^verbatim>\<open>message\<close> of the upstream body when that is truthy (a non-empty string prints as
  itself), and \<^verbatim>\<open>error.message\<close> of the transport when the body has none or a falsy one.
  The handler of version 0.1.0 returns \<^verbatim>\<open>isError: true\<close> with the text
  \<^verbatim>\<open>Exa API error:\<close> and the message, without the status; there only an absent or
  \<^verbatim>\<open>null\<close> upstream message gives way to the transport's.
\<close>

theorem http_error_reported:
  "(errorMessage resp message = Some printed \<longrightarrow>
        web_search_handler (failing_post (AxiosError resp message)) q n =
          Returns \<lparr>content = [\<lparr>ctype = ''text'',
                     ctext = ''Search error ('' @ statusCode resp @ ''): '' @ printed\<rparr>],
                   isError = Some True\<rparr>
      \<and> research_paper_search_handler (failing_post (AxiosError resp message)) q n =
          Returns \<lparr>content = [\<lparr>ctype = ''text'',
                     ctext = ''Research paper search error ('' @ statusCode resp @ ''): '' @ printed\<rparr>],
                   isError = Some True\<rparr>
      \<and> twitter_search_handler (failing_post (AxiosError resp message)) q n startDate endDate =
          Returns \<lparr>content = [\<lparr>ctype = ''text'',
                     ctext = ''Twitter search error ('' @ statusCode resp @ ''): '' @ printed\<rparr>],
                   isError = Some True\<rparr>
      \<and> company_research_handler (failing_post (AxiosError resp message)) q n sub target =
          Returns \<lparr>content = [\<lparr>ctype = ''text'',
                     ctext = ''Company research error ('' @ statusCode resp @ ''): '' @ printed\<rparr>],
                   isError = Some True\<rparr>
      \<and> competitor_finder_handler (failing_post (AxiosError resp message)) q excludeDomain n =
          Returns \<lparr>content = [\<lparr>ctype = ''text'',
                     ctext = ''Competitor finder error ('' @ statusCode resp @ ''): '' @ printed\<rparr>],
                   isError = Some True\<rparr>
      \<and> crawling_handler (failing_post (AxiosError resp message)) url =
          Returns \<lparr>content = [\<lparr>ctype = ''text'',
                     ctext = ''Crawling error ('' @ statusCode resp @ ''): '' @ printed\<rparr>],
                   isError = Some True\<rparr>
      \<and> exa_search_handler dt dn (failing_post (AxiosError resp message)) q ty cat n incl excl =
          Returns \<lparr>content = [\<lparr>ctype = ''text'',
                     ctext = ''Search error ('' @ statusCode resp @ ''): '' @ printed\<rparr>],
                   isError = Some True\<rparr>
      \<and> fst (search_handler (failing_post (AxiosError resp message)) requestId active q n crawl) =
          Returns \<lparr>content = [\<lparr>ctype = ''text'',
                     ctext = ''Search error ('' @ statusCode resp @ ''): '' @ printed\<rparr>],
                   isError = Some True\<rparr>)
   \<and> statusCode None = ''unknown''
   \<and> statusCode (Some \<lparr>status = 0, data = d\<rparr>) = ''unknown''
   \<and> (s \<noteq> 0 \<longrightarrow> statusCode (Some \<lparr>status = s, data = d\<rparr>) = show_nat s)
   \<and> statusCode (Some \<lparr>status = 429, data = d\<rparr>) = ''429''
   \<and> read_nat (show_nat s) = s
   \<and> (\<forall>c \<in> set (show_nat s). c \<in> set ''0123456789'')
   \<and> (s \<noteq> 0 \<longrightarrow> hd (show_nat s) \<noteq> CHR ''0'')
   \<and> errorMessage None message = Some message
   \<and> (opt_prop ''message'' d = None \<longrightarrow>
        errorMessage (Some \<lparr>status = s, data = d\<rparr>) message = Some message)
   \<and> (map_of kvs ''message'' = Some (JStr m) \<and> m \<noteq> [] \<longrightarrow>
        errorMessage (Some \<lparr>status = s, data = Some (JObj kvs)\<rparr>) message = Some m)
   \<and> (map_of kvs ''message'' = Some v \<and> truthy v \<longrightarrow>
        errorMessage (Some \<lparr>status = s, data = Some (JObj kvs)\<rparr>) message = js_String v)
   \<and> (map_of kvs ''message'' = Some v \<and> \<not> truthy v \<longrightarrow>
        errorMessage (Some \<lparr>status = s, data = Some (JObj kvs)\<rparr>) message = Some message)
   \<and> errorMessage (Some \<lparr>status = s, data = Some (JObj [(''message'', JStr [])])\<rparr>) message = Some message
   \<and> errorMessage (Some \<lparr>status = s, data = Some (JObj [(''message'', JNull)])\<rparr>) message = Some message
   \<and> errorMessage (Some \<lparr>status = s, data = Some (JObj [(''message'', JNum 0)])\<rparr>) message = Some message
   \<and> errorMessage (Some \<lparr>status = s, data = Some (JObj [(''message'', JBool False)])\<rparr>) message
        = Some message
   \<and> errorMessage (Some \<lparr>status = s, data = Some (JObj [(''message'', JNum 503)])\<rparr>) message
        = Some ''503''
   \<and> errorMessage (Some \<lparr>status = s, data = Some (JObj [(''message'', JBool True)])\<rparr>) message
        = Some ''true''
   \<and> errorMessage (Some \<lparr>status = s, data = Some (JObj [(''message'', JObj [(''code'', JStr c)])])\<rparr>)
        message = Some ''[object Object]''
   \<and> errorMessage
        (Some \<lparr>status = s, data = Some (JObj [(''message'', JArr [JStr ''a'', JNull, JNum 2])])\<rparr>)
        message = Some ''a,,2''
   \<and> (isValidSearchArgs arguments \<and> legacy_error_message resp message = Some printed \<longrightarrow>
        call_tool (failing_post (AxiosError resp message)) now cache ''search'' arguments =
          (Inr \<lparr>content = [\<lparr>ctype = ''text'',
                     ctext = ''Exa API error: '' @ printed\<rparr>],
                   isError = Some True\<rparr>,
           cache))
   \<and> legacy_error_message None message = Some message
   \<and> (opt_prop ''message'' d = None \<longrightarrow>
        legacy_error_message (Some \<lparr>status = s, data = d\<rparr>) message = Some message)
   \<and> (map_of kvs ''message'' = Some JNull \<longrightarrow>
        legacy_error_message (Some \<lparr>status = s, data = Some (JObj kvs)\<rparr>) message = Some message)
   \<and> (map_of kvs ''message'' = Some (JStr m) \<longrightarrow>
        legacy_error_message (Some \<lparr>status = s, data = Some (JObj kvs)\<rparr>) message = Some m)"
proof -
  have b: "statusCode (Some \<lparr>status = 429, data = d\<rparr>) = ''429''"
    by (simp add: statusCode_simps show_nat_429)
  have f: "errorMessage (Some \<lparr>status = s, data = Some (JObj [(''message'', v)])\<rparr>) message
             = Some message" if "\<not> truthy v" for v
    using that by (simp add: errorMessage_simps)
  have p: "errorMessage (Some \<lparr>status = s, data = Some (JObj [(''message'', v)])\<rparr>) message
             = js_String v" if "truthy v" for v
    using that by (simp add: errorMessage_simps)
  have p1: "errorMessage (Some \<lparr>status = s, data = Some (JObj [(''message'', JNum 503)])\<rparr>) message
             = Some ''503''"
    by (simp add: p show_int_def show_nat.simps digit_char_def)
  have p2: "errorMessage
              (Some \<lparr>status = s, data = Some (JObj [(''message'', JArr [JStr ''a'', JNull, JNum 2])])\<rparr>)
              message = Some ''a,,2''"
    by (simp add: p show_int_def show_nat.simps digit_char_def)
  show ?thesis
    by (intro conjI impI ballI; (elim conjE)?)
       (simp_all add: handler_failing error_text_result_def b f p1 p2 statusCode_simps
          errorMessage_simps
          legacy_error_message_simps call_tool_failing_axios read_show_nat
          show_nat_no_leading_zero show_nat_digits [simplified])
qed

theorem http_error_reported_witness:
  "errorMessage
     (Some \<lparr>status = 429, data = Some (JObj [(''message'', JStr ''Rate limit exceeded'')])\<rparr>)
     ''Request failed with status code 429'' = Some ''Rate limit exceeded''
   \<and> web_search_handler
       (failing_post
          (AxiosError (Some \<lparr>status = 429, data = Some (JObj [(''message'', JStr ''Rate limit exceeded'')])\<rparr>)
             ''Request failed with status code 429''))
       ''cats'' None =
     Returns \<lparr>content = [\<lparr>ctype = ''text'', ctext = ''Search error (429): Rate limit exceeded''\<rparr>],
              isError = Some True\<rparr>
   \<and> isValidSearchArgs (Some (JObj [(''query'', JStr ''cats'')]))
   \<and> legacy_error_message
       (Some \<lparr>status = 429, data = Some (JObj [(''message'', JStr ''Rate limit exceeded'')])\<rparr>)
       ''Request failed with status code 429'' = Some ''Rate limit exceeded''
   \<and> call_tool
       (failing_post
          (AxiosError (Some \<lparr>status = 429, data = Some (JObj [(''message'', JStr ''Rate limit exceeded'')])\<rparr>)
             ''Request failed with status code 429''))
       ''2025-01-01T00:00:00.000Z'' [] ''search'' (Some (JObj [(''query'', JStr ''cats'')]))
     = (Inr \<lparr>content = [\<lparr>ctype = ''text'', ctext = ''Exa API error: Rate limit exceeded''\<rparr>],
             isError = Some True\<rparr>, [])"
proof -
  let ?d = "Some (JObj [(''message'', JStr ''Rate limit exceeded'')])"
  let ?r = "Some \<lparr>status = 429, data = ?d\<rparr>"
  let ?m = "''Request failed with status code 429''"
  let ?a = "Some (JObj [(''query'', JStr ''cats'')])"
  note t = http_error_reported [where resp = ?r and message = ?m and q = "''cats''" and n = None
             and s = 429 and d = ?d and kvs = "[(''message'', JStr ''Rate limit exceeded'')]"
             and m = "''Rate limit exceeded''" and printed = "''Rate limit exceeded''"
             and arguments = ?a and cache = "[]" and now = "''2025-01-01T00:00:00.000Z''"]
  have h: "map_of [(''message'', JStr ''Rate limit exceeded'')] ''message'' = Some (JStr ''Rate limit exceeded'')"
    by simp
  have n: "''Rate limit exceeded'' \<noteq> []" by simp
  have v: "isValidSearchArgs ?a" by (simp add: isValidSearchArgs_def)
  from t h n have e: "errorMessage ?r ?m = Some ''Rate limit exceeded''" by blast
  from t h have l: "legacy_error_message ?r ?m = Some ''Rate limit exceeded''" by blast
  from t have 1: "errorMessage ?r ?m = Some ''Rate limit exceeded'' \<longrightarrow>
      web_search_handler (failing_post (AxiosError ?r ?m)) ''cats'' None =
        Returns \<lparr>content = [\<lparr>ctype = ''text'',
           ctext = ''Search error ('' @ statusCode ?r @ ''): '' @ ''Rate limit exceeded''\<rparr>],
           isError = Some True\<rparr>" by blast
  from t have 2: "statusCode ?r = ''429''" by blast
  from t have 3: "isValidSearchArgs ?a \<and> legacy_error_message ?r ?m = Some ''Rate limit exceeded'' \<longrightarrow>
      call_tool (failing_post (AxiosError ?r ?m)) ''2025-01-01T00:00:00.000Z'' [] ''search'' ?a =
        (Inr \<lparr>content = [\<lparr>ctype = ''text'', ctext = ''Exa API error: '' @ ''Rate limit exceeded''\<rparr>],
              isError = Some True\<rparr>, [])" by blast
  from 1 e have 4: "web_search_handler (failing_post (AxiosError ?r ?m)) ''cats'' None =
        Returns \<lparr>content = [\<lparr>ctype = ''text'',
           ctext = ''Search error ('' @ statusCode ?r @ ''): '' @ ''Rate limit exceeded''\<rparr>],
           isError = Some True\<rparr>" by (rule mp)
  from 3 v l have 5: "call_tool (failing_post (AxiosError ?r ?m)) ''2025-01-01T00:00:00.000Z'' []
        ''search'' ?a =
        (Inr \<lparr>content = [\<lparr>ctype = ''text'', ctext = ''Exa API error: '' @ ''Rate limit exceeded''\<rparr>],
              isError = Some True\<rparr>, [])" by blast
  show ?thesis
    unfolding 4 5 2 using e l v by simp
qed


section \<open>Exceptions\<close>

lemma error_result_non_axios:
  "\<not> isAxiosError e \<Longrightarrow>
     error_result label e =
       Returns \<lparr>content = [\<lparr>ctype = ''text'', ctext = label @ '': '' @ thrown_message e\<rparr>],
                isError = Some True\<rparr>"
  by (cases e) (simp_all add: error_text_result_def)

lemma error_result_reportable:
  "reportable e \<Longrightarrow> \<exists>r. error_result label e = Returns r \<and> isError r = Some True"
  by (cases e) (auto simp: error_text_result_def)

lemma relay_response_throws:
  "found_log_throws d \<Longrightarrow> relay_response t d = Throws (JsError TypeError_message)"
  by (simp add: found_log_throws_def relay_response_def)

lemma relay_response_caught:
  "\<exists>r. (case relay_response t d of Returns r \<Rightarrow> Returns r | Throws e \<Rightarrow> error_result label e)
         = Returns r"
  by (simp add: relay_response_def error_text_result_def split: option.split)

lemma caught_returns:
  assumes "\<And>e. body = Throws e \<Longrightarrow> reportable e"
  shows "\<exists>r. (case body of
               Returns d \<Rightarrow>
                 (case relay_response t d of
                    Returns r \<Rightarrow> Returns r
                  | Throws e \<Rightarrow> error_result label e)
             | Throws e \<Rightarrow> error_result label e) = Returns r"
proof (cases body)
  case (Returns d)
  then show ?thesis
    using relay_response_caught [where t = t and d = d and label = label] by simp
next
  case (Throws e)
  with assms have "reportable e" by simp
  then show ?thesis
    using Throws error_result_reportable [of e label] by auto
qed

lemma caught_returns_crawl:
  assumes "\<And>e. body = Throws e \<Longrightarrow> reportable e"
  shows "\<exists>r. (case body of
               Returns d \<Rightarrow> Returns (relay_crawl_response d)
             | Throws e \<Rightarrow> error_result label e) = Returns r"
proof (cases body)
  case (Returns d)
  then show ?thesis by simp
next
  case (Throws e)
  with assms have "reportable e" by simp
  then show ?thesis
    using Throws error_result_reportable [of e label] by auto
qed

lemma found_log_throws_example:
  "found_log_throws (JObj [(''results'', JObj [(''length'', JObj [(''toString'', v)])])])"
  by (simp add: found_log_throws_def truthy_opt_def opt_prop_def template_text_def)

lemma found_log_array:
  "get_prop ''results'' d = Some (JArr xs) \<Longrightarrow> \<not> found_log_throws d"
  by (simp add: found_log_throws_def opt_prop_def template_text_def)

lemma call_tool_protocol_errors:
  "tool_name \<noteq> ''search'' \<Longrightarrow>
     call_tool post now cache tool_name arguments =
       (Inl (McpError MethodNotFound (''Unknown tool: '' @ tool_name)), cache)"
  "\<not> isValidSearchArgs arguments \<Longrightarrow>
     call_tool post now cache ''search'' arguments =
       (Inl (McpError InvalidParams ''Invalid search arguments''), cache)"
  by (simp_all add: call_tool_def)

lemma call_tool_rethrows:
  "isValidSearchArgs arguments \<Longrightarrow> \<not> isAxiosError e \<Longrightarrow>
     call_tool (failing_post e) now cache ''search'' arguments = (Inl (Rethrown e), cache)"
  by (cases e) (simp_all add: call_tool_failing)

text \<open>
  The conversion in the \<^verbatim>\<open>catch\<close> block is not guarded: when the upstream body's
  \<^verbatim>\<open>message\<close> is an object with a key \<^verbatim>\<open>toString\<close>, printing it throws, and the
  \<^verbatim>\<open>TypeError\<close> leaves the handler.
\<close>

lemma catch_block_conversion_throws:
  "web_search_handler
     (failing_post
        (AxiosError
           (Some \<lparr>status = 400, data = Some (JObj [(''message'', JObj [(''toString'', JNum 1)])])\<rparr>)
           ''Request failed with status code 400''))
     ''cats'' None
   = Throws (JsError ''Cannot convert object to primitive value'')"
  by (simp add: handler_failing errorMessage_def upstream_message_def opt_prop_def
        TypeError_message_def)

text \<open>
  Claim C5 says that no exception ever leaves a handler. The request handler of version
  0.1.0 catches, converts Axios errors only, and throws every other error again: here an
  upstream call failing with a plain \<^verbatim>\<open>Error\<close> leaves the handler as an exception, and
  so does the handler's own \<^verbatim>\<open>McpError\<close> for a tool name it does not know.
\<close>

theorem legacy_handler_rethrows_counterexample:
  "fst (call_tool (failing_post (JsError ''boom'')) ''2025-01-01T00:00:00.000Z'' [] ''search''
          (Some (JObj [(''query'', JStr ''cats'')])))
     = Inl (Rethrown (JsError ''boom''))
   \<and> fst (call_tool (answering_post empty_results_response) ''2025-01-01T00:00:00.000Z'' []
            ''crawl'' (Some (JObj [(''query'', JStr ''cats'')])))
     = Inl (McpError MethodNotFound ''Unknown tool: crawl'')"
  by (simp add: call_tool_def failing_post_def isValidSearchArgs_def)

text \<open>
  Claim C5 as amended. In every registry handler, and in the search tool of version
  0.2.1, every exception raised inside \<^verbatim>\<open>try\<close> is caught, whether the upstream call
  threw it or the handler's own code did (the log line that prints the number of results
  throws when that number has no string form). For an error that is not an Axios error
  the handler returns a result with \<^verbatim>\<open>isError: true\<close> whose text is the handler's label
  followed by the error's message, and for an Axios error whose message has a string form
  it is the label, the status in parentheses and the message; for every error whose
  message the \<^verbatim>\<open>catch\<close> block can print, which includes every error that is not an
  Axios error, it returns a result with \<^verbatim>\<open>isError: true\<close>; and the handler returns a
  result whenever the upstream call returns, or throws such an error. The request handler of version 0.1.0 converts an
  Axios error into such a result and throws any other error again, leaving the cache as
  it was; for an unknown tool name and for invalid arguments it throws an
  \<^verbatim>\<open>McpError\<close> of its own.
\<close>

theorem handler_exceptions_contained:
  "(\<not> isAxiosError e \<longrightarrow>
        web_search_handler (failing_post e) q n =
          Returns \<lparr>content = [\<lparr>ctype = ''text'',
                     ctext = ''Search error: '' @ thrown_message e\<rparr>],
                   isError = Some True\<rparr>
      \<and> research_paper_search_handler (failing_post e) q n =
          Returns \<lparr>content = [\<lparr>ctype = ''text'',
                     ctext = ''Research paper search error: '' @ thrown_message e\<rparr>],
                   isError = Some True\<rparr>
      \<and> twitter_search_handler (failing_post e) q n startDate endDate =
          Returns \<lparr>content = [\<lparr>ctype = ''text'',
                     ctext = ''Twitter search error: '' @ thrown_message e\<rparr>],
                   isError = Some True\<rparr>
      \<and> company_research_handler (failing_post e) q n sub target =
          Returns \<lparr>content = [\<lparr>ctype = ''text'',
                     ctext = ''Company research error: '' @ thrown_message e\<rparr>],
                   isError = Some True\<rparr>
      \<and> competitor_finder_handler (failing_post e) q excludeDomain n =
          Returns \<lparr>content = [\<lparr>ctype = ''text'',
                     ctext = ''Competitor finder error: '' @ thrown_message e\<rparr>],
                   isError = Some True\<rparr>
      \<and> crawling_handler (failing_post e) url =
          Returns \<lparr>content = [\<lparr>ctype = ''text'',
                     ctext = ''Crawling error: '' @ thrown_message e\<rparr>],
                   isError = Some True\<rparr>
      \<and> exa_search_handler dt dn (failing_post e) q ty cat n incl excl =
          Returns \<lparr>content = [\<lparr>ctype = ''text'',
                     ctext = ''Search error: '' @ thrown_message e\<rparr>],
                   isError = Some True\<rparr>
      \<and> fst (search_handler (failing_post e) requestId active q n crawl) =
          Returns \<lparr>content = [\<lparr>ctype = ''text'',
                     ctext = ''Search error: '' @ thrown_message e\<rparr>],
                   isError = Some True\<rparr>)
   \<and> (found_log_throws d \<longrightarrow>
        web_search_handler (answering_post d) q n =
          Returns \<lparr>content = [\<lparr>ctype = ''text'',
                     ctext = ''Search error: '' @ TypeError_message\<rparr>],
                   isError = Some True\<rparr>
      \<and> research_paper_search_handler (answering_post d) q n =
          Returns \<lparr>content = [\<lparr>ctype = ''text'',
                     ctext = ''Research paper search error: '' @ TypeError_message\<rparr>],
                   isError = Some True\<rparr>
      \<and> twitter_search_handler (answering_post d) q n startDate endDate =
          Returns \<lparr>content = [\<lparr>ctype = ''text'',
                     ctext = ''Twitter search error: '' @ TypeError_message\<rparr>],
                   isError = Some True\<rparr>
      \<and> company_research_handler (answering_post d) q n sub target =
          Returns \<lparr>content = [\<lparr>ctype = ''text'',
                     ctext = ''Company research error: '' @ TypeError_message\<rparr>],
                   isError = Some True\<rparr>
      \<and> competitor_finder_handler (answering_post d) q excludeDomain n =
          Returns \<lparr>content = [\<lparr>ctype = ''text'',
                     ctext = ''Competitor finder error: '' @ TypeError_message\<rparr>],
                   isError = Some True\<rparr>
      \<and> exa_search_handler dt dn (answering_post d) q ty cat n incl excl =
          Returns \<lparr>content = [\<lparr>ctype = ''text'',
                     ctext = ''Search error: '' @ TypeError_message\<rparr>],
                   isError = Some True\<rparr>
      \<and> fst (search_handler (answering_post d) requestId active q n crawl) =
          Returns \<lparr>content = [\<lparr>ctype = ''text'',
                     ctext = ''Search error: '' @ TypeError_message\<rparr>],
                   isError = Some True\<rparr>)
   \<and> (reportable e \<longrightarrow>
        (\<exists>r. web_search_handler (failing_post e) q n = Returns r \<and> isError r = Some True)
      \<and> (\<exists>r. research_paper_search_handler (failing_post e) q n = Returns r \<and> isError r = Some True)
      \<and> (\<exists>r. twitter_search_handler (failing_post e) q n startDate endDate = Returns r \<and> isError r = Some True)
      \<and> (\<exists>r. company_research_handler (failing_post e) q n sub target = Returns r \<and> isError r = Some True)
      \<and> (\<exists>r. competitor_finder_handler (failing_post e) q excludeDomain n = Returns r \<and> isError r = Some True)
      \<and> (\<exists>r. crawling_handler (failing_post e) url = Returns r \<and> isError r = Some True)
      \<and> (\<exists>r. exa_search_handler dt dn (failing_post e) q ty cat n incl excl = Returns r \<and> isError r = Some True)
      \<and> (\<exists>r. fst (search_handler (failing_post e) requestId active q n crawl) = Returns r \<and> isError r = Some True))
   \<and> (((\<forall>e. post ''/search'' (web_search_request q n) = Throws e \<longrightarrow> reportable e) \<longrightarrow>
          (\<exists>r. web_search_handler post q n = Returns r))
      \<and> ((\<forall>e. post ''/search'' (research_paper_search_request q n) = Throws e \<longrightarrow> reportable e) \<longrightarrow>
          (\<exists>r. research_paper_search_handler post q n = Returns r))
      \<and> ((\<forall>e. post ''/search'' (twitter_search_request q n startDate endDate) = Throws e \<longrightarrow> reportable e) \<longrightarrow>
          (\<exists>r. twitter_search_handler post q n startDate endDate = Returns r))
      \<and> ((\<forall>e. post ''/search'' (company_research_request q n sub target) = Throws e \<longrightarrow> reportable e) \<longrightarrow>
          (\<exists>r. company_research_handler post q n sub target = Returns r))
      \<and> ((\<forall>e. post ''/search'' (competitor_finder_request q excludeDomain n) = Throws e \<longrightarrow> reportable e) \<longrightarrow>
          (\<exists>r. competitor_finder_handler post q excludeDomain n = Returns r))
      \<and> ((\<forall>e. cpost ''/contents'' (crawling_request url) = Throws e \<longrightarrow> reportable e) \<longrightarrow>
          (\<exists>r. crawling_handler cpost url = Returns r))
      \<and> ((\<forall>e. post ''/search'' (exa_search_request dt dn q ty cat n incl excl) = Throws e \<longrightarrow> reportable e) \<longrightarrow>
          (\<exists>r. exa_search_handler dt dn post q ty cat n incl excl = Returns r))
      \<and> ((\<forall>e. post ''/search'' (search_request q n crawl) = Throws e \<longrightarrow> reportable e) \<longrightarrow>
          (\<exists>r. fst (search_handler post requestId active q n crawl) = Returns r)))
   \<and> (\<not> isAxiosError (JsError m)
      \<and> \<not> isAxiosError (NonError m)
      \<and> thrown_message (JsError m) = m
      \<and> thrown_message (NonError m) = m
      \<and> reportable (JsError m)
      \<and> reportable (NonError m)
      \<and> (reportable (AxiosError resp message) \<longleftrightarrow> errorMessage resp message \<noteq> None)
      \<and> found_log_throws (JObj [(''results'', JObj [(''length'', JObj [(''toString'', v)])])])
      \<and> (get_prop ''results'' d = Some (JArr xs) \<longrightarrow> \<not> found_log_throws d)
      \<and> reportable (AxiosError None message)
      \<and> (opt_prop ''message'' body = None \<longrightarrow>
           reportable (AxiosError (Some \<lparr>status = s, data = body\<rparr>) message))
      \<and> (map_of kvs ''message'' = Some (JStr m) \<longrightarrow>
           reportable (AxiosError (Some \<lparr>status = s, data = Some (JObj kvs)\<rparr>) message))
      \<and> \<not> reportable
             (AxiosError
                (Some \<lparr>status = s, data = Some (JObj [(''message'', JObj [(''toString'', v)])])\<rparr>)
                message))
   \<and> (isValidSearchArgs arguments \<longrightarrow>
        (\<not> isAxiosError e \<longrightarrow>
           call_tool (failing_post e) now cache ''search'' arguments = (Inl (Rethrown e), cache))
      \<and> (legacy_error_message resp message = Some printed \<longrightarrow>
           call_tool (failing_post (AxiosError resp message)) now cache ''search'' arguments =
             (Inr \<lparr>content = [\<lparr>ctype = ''text'',
                     ctext = ''Exa API error: '' @ printed\<rparr>],
                   isError = Some True\<rparr>,
              cache)))
   \<and> (tool_name \<noteq> ''search'' \<longrightarrow>
        call_tool post now cache tool_name arguments =
          (Inl (McpError MethodNotFound (''Unknown tool: '' @ tool_name)), cache))
   \<and> (\<not> isValidSearchArgs arguments \<longrightarrow>
        call_tool post now cache ''search'' arguments =
          (Inl (McpError InvalidParams ''Invalid search arguments''), cache))
   \<and> (errorMessage resp message = Some printed \<longrightarrow>
        web_search_handler (failing_post (AxiosError resp message)) q n =
          Returns \<lparr>content = [\<lparr>ctype = ''text'',
                     ctext = ''Search error ('' @ statusCode resp
                         @ ''): '' @ printed\<rparr>],
                   isError = Some True\<rparr>
      \<and> research_paper_search_handler (failing_post (AxiosError resp message)) q n =
          Returns \<lparr>content = [\<lparr>ctype = ''text'',
                     ctext = ''Research paper search error ('' @ statusCode resp
                         @ ''): '' @ printed\<rparr>],
                   isError = Some True\<rparr>
      \<and> twitter_search_handler (failing_post (AxiosError resp message)) q n startDate endDate =
          Returns \<lparr>content = [\<lparr>ctype = ''text'',
                     ctext = ''Twitter search error ('' @ statusCode resp
                         @ ''): '' @ printed\<rparr>],
                   isError = Some True\<rparr>
      \<and> company_research_handler (failing_post (AxiosError resp message)) q n sub target =
          Returns \<lparr>content = [\<lparr>ctype = ''text'',
                     ctext = ''Company research error ('' @ statusCode resp
                         @ ''): '' @ printed\<rparr>],
                   isError = Some True\<rparr>
      \<and> competitor_finder_handler (failing_post (AxiosError resp message)) q excludeDomain n =
          Returns \<lparr>content = [\<lparr>ctype = ''text'',
                     ctext = ''Competitor finder error ('' @ statusCode resp
                         @ ''): '' @ printed\<rparr>],
                   isError = Some True\<rparr>
      \<and> crawling_handler (failing_post (AxiosError resp message)) url =
          Returns \<lparr>content = [\<lparr>ctype = ''text'',
                     ctext = ''Crawling error ('' @ statusCode resp
                         @ ''): '' @ printed\<rparr>],
                   isError = Some True\<rparr>
      \<and> exa_search_handler dt dn (failing_post (AxiosError resp message)) q ty cat n incl excl =
          Returns \<lparr>content = [\<lparr>ctype = ''text'',
                     ctext = ''Search error ('' @ statusCode resp
                         @ ''): '' @ printed\<rparr>],
                   isError = Some True\<rparr>
      \<and> fst (search_handler (failing_post (AxiosError resp message)) requestId active q n crawl) =
          Returns \<lparr>content = [\<lparr>ctype = ''text'',
                     ctext = ''Search error ('' @ statusCode resp
                         @ ''): '' @ printed\<rparr>],
                   isError = Some True\<rparr>)"
proof -
  have g1: "(\<not> isAxiosError e \<longrightarrow>
          web_search_handler (failing_post e) q n =
            Returns \<lparr>content = [\<lparr>ctype = ''text'',
                       ctext = ''Search error: '' @ thrown_message e\<rparr>],
                     isError = Some True\<rparr>
        \<and> research_paper_search_handler (failing_post e) q n =
            Returns \<lparr>content = [\<lparr>ctype = ''text'',
                       ctext = ''Research paper search error: '' @ thrown_message e\<rparr>],
                     isError = Some True\<rparr>
        \<and> twitter_search_handler (failing_post e) q n startDate endDate =
            Returns \<lparr>content = [\<lparr>ctype = ''text'',
                       ctext = ''Twitter search error: '' @ thrown_message e\<rparr>],
                     isError = Some True\<rparr>
        \<and> company_research_handler (failing_post e) q n sub target =
            Returns \<lparr>content = [\<lparr>ctype = ''text'',
                       ctext = ''Company research error: '' @ thrown_message e\<rparr>],
                     isError = Some True\<rparr>
        \<and> competitor_finder_handler (failing_post e) q excludeDomain n =
            Returns \<lparr>content = [\<lparr>ctype = ''text'',
                       ctext = ''Competitor finder error: '' @ thrown_message e\<rparr>],
                     isError = Some True\<rparr>
        \<and> crawling_handler (failing_post e) url =
            Returns \<lparr>content = [\<lparr>ctype = ''text'',
                       ctext = ''Crawling error: '' @ thrown_message e\<rparr>],
                     isError = Some True\<rparr>
        \<and> exa_search_handler dt dn (failing_post e) q ty cat n incl excl =
            Returns \<lparr>content = [\<lparr>ctype = ''text'',
                       ctext = ''Search error: '' @ thrown_message e\<rparr>],
                     isError = Some True\<rparr>
        \<and> fst (search_handler (failing_post e) requestId active q n crawl) =
            Returns \<lparr>content = [\<lparr>ctype = ''text'',
                       ctext = ''Search error: '' @ thrown_message e\<rparr>],
                     isError = Some True\<rparr>)"
    by (simp add: handler_failing error_result_non_axios)
  have g2: "(found_log_throws d \<longrightarrow>
          web_search_handler (answering_post d) q n =
            Returns \<lparr>content = [\<lparr>ctype = ''text'',
                       ctext = ''Search error: '' @ TypeError_message\<rparr>],
                     isError = Some True\<rparr>
        \<and> research_paper_search_handler (answering_post d) q n =
            Returns \<lparr>content = [\<lparr>ctype = ''text'',
                       ctext = ''Research paper search error: '' @ TypeError_message\<rparr>],
                     isError = Some True\<rparr>
        \<and> twitter_search_handler (answering_post d) q n startDate endDate =
            Returns \<lparr>content = [\<lparr>ctype = ''text'',
                       ctext = ''Twitter search error: '' @ TypeError_message\<rparr>],
                     isError = Some True\<rparr>
        \<and> company_research_handler (answering_post d) q n sub target =
            Returns \<lparr>content = [\<lparr>ctype = ''text'',
                       ctext = ''Company research error: '' @ TypeError_message\<rparr>],
                     isError = Some True\<rparr>
        \<and> competitor_finder_handler (answering_post d) q excludeDomain n =
            Returns \<lparr>content = [\<lparr>ctype = ''text'',
                       ctext = ''Competitor finder error: '' @ TypeError_message\<rparr>],
                     isError = Some True\<rparr>
        \<and> exa_search_handler dt dn (answering_post d) q ty cat n incl excl =
            Returns \<lparr>content = [\<lparr>ctype = ''text'',
                       ctext = ''Search error: '' @ TypeError_message\<rparr>],
                     isError = Some True\<rparr>
        \<and> fst (search_handler (answering_post d) requestId active q n crawl) =
            Returns \<lparr>content = [\<lparr>ctype = ''text'',
                       ctext = ''Search error: '' @ TypeError_message\<rparr>],
                     isError = Some True\<rparr>)"
    by (simp add: handler_answering relay_response_throws error_text_result_def)
  have g3: "(reportable e \<longrightarrow>
          (\<exists>r. web_search_handler (failing_post e) q n = Returns r \<and> isError r = Some True)
        \<and> (\<exists>r. research_paper_search_handler (failing_post e) q n = Returns r \<and> isError r = Some True)
        \<and> (\<exists>r. twitter_search_handler (failing_post e) q n startDate endDate = Returns r \<and> isError r = Some True)
        \<and> (\<exists>r. company_research_handler (failing_post e) q n sub target = Returns r \<and> isError r = Some True)
        \<and> (\<exists>r. competitor_finder_handler (failing_post e) q excludeDomain n = Returns r \<and> isError r = Some True)
        \<and> (\<exists>r. crawling_handler (failing_post e) url = Returns r \<and> isError r = Some True)
        \<and> (\<exists>r. exa_search_handler dt dn (failing_post e) q ty cat n incl excl = Returns r \<and> isError r = Some True)
        \<and> (\<exists>r. fst (search_handler (failing_post e) requestId active q n crawl) = Returns r \<and> isError r = Some True))"
    by (simp add: handler_failing error_result_reportable)
  have g4: "(((\<forall>e. post ''/search'' (web_search_request q n) = Throws e \<longrightarrow> reportable e) \<longrightarrow>
            (\<exists>r. web_search_handler post q n = Returns r))
        \<and> ((\<forall>e. post ''/search'' (research_paper_search_request q n) = Throws e \<longrightarrow> reportable e) \<longrightarrow>
            (\<exists>r. research_paper_search_handler post q n = Returns r))
        \<and> ((\<forall>e. post ''/search'' (twitter_search_request q n startDate endDate) = Throws e \<longrightarrow> reportable e) \<longrightarrow>
            (\<exists>r. twitter_search_handler post q n startDate endDate = Returns r))
        \<and> ((\<forall>e. post ''/search'' (company_research_request q n sub target) = Throws e \<longrightarrow> reportable e) \<longrightarrow>
            (\<exists>r. company_research_handler post q n sub target = Returns r))
        \<and> ((\<forall>e. post ''/search'' (competitor_finder_request q excludeDomain n) = Throws e \<longrightarrow> reportable e) \<longrightarrow>
            (\<exists>r. competitor_finder_handler post q excludeDomain n = Returns r))
        \<and> ((\<forall>e. cpost ''/contents'' (crawling_request url) = Throws e \<longrightarrow> reportable e) \<longrightarrow>
            (\<exists>r. crawling_handler cpost url = Returns r))
        \<and> ((\<forall>e. post ''/search'' (exa_search_request dt dn q ty cat n incl excl) = Throws e \<longrightarrow> reportable e) \<longrightarrow>
            (\<exists>r. exa_search_handler dt dn post q ty cat n incl excl = Returns r))
        \<and> ((\<forall>e. post ''/search'' (search_request q n crawl) = Throws e \<longrightarrow> reportable e) \<longrightarrow>
            (\<exists>r. fst (search_handler post requestId active q n crawl) = Returns r)))"
    unfolding handler_cases
    by (intro conjI impI caught_returns caught_returns_crawl) blast+
  have g5: "(\<not> isAxiosError (JsError m)
        \<and> \<not> isAxiosError (NonError m)
        \<and> thrown_message (JsError m) = m
        \<and> thrown_message (NonError m) = m
        \<and> reportable (JsError m)
        \<and> reportable (NonError m)
        \<and> (reportable (AxiosError resp message) \<longleftrightarrow> errorMessage resp message \<noteq> None)
        \<and> found_log_throws (JObj [(''results'', JObj [(''length'', JObj [(''toString'', v)])])])
        \<and> (get_prop ''results'' d = Some (JArr xs) \<longrightarrow> \<not> found_log_throws d)
        \<and> reportable (AxiosError None message)
        \<and> (opt_prop ''message'' body = None \<longrightarrow>
             reportable (AxiosError (Some \<lparr>status = s, data = body\<rparr>) message))
        \<and> (map_of kvs ''message'' = Some (JStr m) \<longrightarrow>
             reportable (AxiosError (Some \<lparr>status = s, data = Some (JObj kvs)\<rparr>) message))
        \<and> \<not> reportable
               (AxiosError
                  (Some \<lparr>status = s, data = Some (JObj [(''message'', JObj [(''toString'', v)])])\<rparr>)
                  message))"
    by (simp add: found_log_throws_example found_log_array errorMessage_def
          upstream_message_def opt_prop_def)
  have g6: "(isValidSearchArgs arguments \<longrightarrow>
          (\<not> isAxiosError e \<longrightarrow>
             call_tool (failing_post e) now cache ''search'' arguments = (Inl (Rethrown e), cache))
        \<and> (legacy_error_message resp message = Some printed \<longrightarrow>
             call_tool (failing_post (AxiosError resp message)) now cache ''search'' arguments =
               (Inr \<lparr>content = [\<lparr>ctype = ''text'',
                       ctext = ''Exa API error: '' @ printed\<rparr>],
                     isError = Some True\<rparr>,
                cache)))"
    by (simp add: call_tool_rethrows call_tool_failing_axios)
  have g7: "(tool_name \<noteq> ''search'' \<longrightarrow>
          call_tool post now cache tool_name arguments =
            (Inl (McpError MethodNotFound (''Unknown tool: '' @ tool_name)), cache))"
    by (simp add: call_tool_protocol_errors)
  have g8: "(\<not> isValidSearchArgs arguments \<longrightarrow>
          call_tool post now cache ''search'' arguments =
            (Inl (McpError InvalidParams ''Invalid search arguments''), cache))"
    by (simp add: call_tool_protocol_errors)
  have g9: "(errorMessage resp message = Some printed \<longrightarrow>
          web_search_handler (failing_post (AxiosError resp message)) q n =
            Returns \<lparr>content = [\<lparr>ctype = ''text'',
                       ctext = ''Search error ('' @ statusCode resp
                           @ ''): '' @ printed\<rparr>],
                     isError = Some True\<rparr>
        \<and> research_paper_search_handler (failing_post (AxiosError resp message)) q n =
            Returns \<lparr>content = [\<lparr>ctype = ''text'',
                       ctext = ''Research paper search error ('' @ statusCode resp
                           @ ''): '' @ printed\<rparr>],
                     isError = Some True\<rparr>
        \<and> twitter_search_handler (failing_post (AxiosError resp message)) q n startDate endDate =
            Returns \<lparr>content = [\<lparr>ctype = ''text'',
                       ctext = ''Twitter search error ('' @ statusCode resp
                           @ ''): '' @ printed\<rparr>],
                     isError = Some True\<rparr>
        \<and> company_research_handler (failing_post (AxiosError resp message)) q n sub target =
            Returns \<lparr>content = [\<lparr>ctype = ''text'',
                       ctext = ''Company research error ('' @ statusCode resp
                           @ ''): '' @ printed\<rparr>],
                     isError = Some True\<rparr>
        \<and> competitor_finder_handler (failing_post (AxiosError resp message)) q excludeDomain n =
            Returns \<lparr>content = [\<lparr>ctype = ''text'',
                       ctext = ''Competitor finder error ('' @ statusCode resp
                           @ ''): '' @ printed\<rparr>],
                     isError = Some True\<rparr>
        \<and> crawling_handler (failing_post (AxiosError resp message)) url =
            Returns \<lparr>content = [\<lparr>ctype = ''text'',
                       ctext = ''Crawling error ('' @ statusCode resp
                           @ ''): '' @ printed\<rparr>],
                     isError = Some True\<rparr>
        \<and> exa_search_handler dt dn (failing_post (AxiosError resp message)) q ty cat n incl excl =
            Returns \<lparr>content = [\<lparr>ctype = ''text'',
                       ctext = ''Search error ('' @ statusCode resp
                           @ ''): '' @ printed\<rparr>],
                     isError = Some True\<rparr>
        \<and> fst (search_handler (failing_post (AxiosError resp message)) requestId active q n crawl) =
            Returns \<lparr>content = [\<lparr>ctype = ''text'',
                       ctext = ''Search error ('' @ statusCode resp
                           @ ''): '' @ printed\<rparr>],
                     isError = Some True\<rparr>)"
    by (simp add: handler_failing error_text_result_def)
  show ?thesis
    by (rule conjI [OF g1 conjI [OF g2 conjI [OF g3 conjI [OF g4 conjI [OF g5
          conjI [OF g6 conjI [OF g7 conjI [OF g8 g9]]]]]]]])
qed

theorem handler_exceptions_contained_witness:
  "\<not> isAxiosError (NonError ''timeout'')
   \<and> web_search_handler (failing_post (NonError ''timeout'')) ''cats'' None =
       Returns \<lparr>content = [\<lparr>ctype = ''text'', ctext = ''Search error: timeout''\<rparr>],
                isError = Some True\<rparr>
   \<and> found_log_throws (JObj [(''results'', JObj [(''length'', JObj [(''toString'', JNum 1)])])])
   \<and> web_search_handler
         (answering_post (JObj [(''results'', JObj [(''length'', JObj [(''toString'', JNum 1)])])]))
         ''cats'' None =
       Returns \<lparr>content = [\<lparr>ctype = ''text'',
                   ctext = ''Search error: Cannot convert object to primitive value''\<rparr>],
                isError = Some True\<rparr>
   \<and> reportable (NonError ''timeout'')
   \<and> (\<exists>r. crawling_handler (failing_post (NonError ''timeout'')) ''exa.ai'' = Returns r
            \<and> isError r = Some True)
   \<and> (\<exists>r. web_search_handler (answering_post empty_results_response) ''cats'' None = Returns r)
   \<and> isValidSearchArgs (Some (JObj [(''query'', JStr ''cats'')]))
   \<and> call_tool (failing_post (NonError ''timeout'')) ''2025-01-01T00:00:00.000Z'' [] ''search''
        (Some (JObj [(''query'', JStr ''cats'')]))
     = (Inl (Rethrown (NonError ''timeout'')), [])
   \<and> ''crawl'' \<noteq> ''search''
   \<and> call_tool (answering_post empty_results_response) ''2025-01-01T00:00:00.000Z'' [] ''crawl''
        (Some (JObj [(''query'', JStr ''cats'')]))
     = (Inl (McpError MethodNotFound ''Unknown tool: crawl''), [])
   \<and> \<not> isValidSearchArgs (Some (JObj [(''numResults'', JNum 3)]))
   \<and> call_tool (answering_post empty_results_response) ''2025-01-01T00:00:00.000Z'' [] ''search''
        (Some (JObj [(''numResults'', JNum 3)]))
     = (Inl (McpError InvalidParams ''Invalid search arguments''), [])
   \<and> errorMessage None ''timeout of 25000ms exceeded'' = Some ''timeout of 25000ms exceeded''
   \<and> web_search_handler (failing_post (AxiosError None ''timeout of 25000ms exceeded''))
         ''cats'' None =
       Returns \<lparr>content = [\<lparr>ctype = ''text'',
                   ctext = ''Search error (unknown): timeout of 25000ms exceeded''\<rparr>],
                isError = Some True\<rparr>"
proof -
  let ?e = "NonError ''timeout''"
  let ?d = "JObj [(''results'', JObj [(''length'', JObj [(''toString'', JNum 1)])])]"
  let ?a = "Some (JObj [(''query'', JStr ''cats'')])"
  let ?b = "Some (JObj [(''numResults'', JNum 3)])"
  let ?p = "answering_post empty_results_response :: string \<Rightarrow> ExaSearchRequest \<Rightarrow> json outcome"
  note t = handler_exceptions_contained [where e = ?e and d = ?d and q = "''cats''" and n = None
      and url = "''exa.ai''" and post = ?p and arguments = ?a and cache = "[]"
      and now = "''2025-01-01T00:00:00.000Z''" and tool_name = "''crawl''"]
  note u = handler_exceptions_contained [where post = ?p and arguments = ?b and cache = "[]"
      and now = "''2025-01-01T00:00:00.000Z''"]
  have h1: "\<not> isAxiosError ?e" by simp
  have h2: "found_log_throws ?d"
    by (simp add: found_log_throws_def truthy_opt_def opt_prop_def template_text_def)
  have h3: "reportable ?e" by simp
  have h4: "\<forall>e. ?p ''/search'' (web_search_request ''cats'' None) = Throws e \<longrightarrow> reportable e"
    by (simp add: answering_post_def)
  have h6: "isValidSearchArgs ?a" by (simp add: isValidSearchArgs_def)
  have h7: "''crawl'' \<noteq> ''search''" by simp
  have h8: "\<not> isValidSearchArgs ?b" by (simp add: isValidSearchArgs_def)
  note r1 = t [THEN conjunct1, THEN mp, OF h1, THEN conjunct1]
  note r2 = t [THEN conjunct2, THEN conjunct1, THEN mp, OF h2, THEN conjunct1]
  note r3 = t [THEN conjunct2, THEN conjunct2, THEN conjunct1, THEN mp, OF h3,
               THEN conjunct2, THEN conjunct2, THEN conjunct2, THEN conjunct2, THEN conjunct2,
               THEN conjunct1]
  note r4 = t [THEN conjunct2, THEN conjunct2, THEN conjunct2, THEN conjunct1, THEN conjunct1,
               THEN mp, OF h4]
  note r6 = t [THEN conjunct2, THEN conjunct2, THEN conjunct2, THEN conjunct2, THEN conjunct2,
               THEN conjunct1, THEN mp, OF h6, THEN conjunct1, THEN mp, OF h1]
  note r7 = t [THEN conjunct2, THEN conjunct2, THEN conjunct2, THEN conjunct2, THEN conjunct2,
               THEN conjunct2, THEN conjunct1, THEN mp, OF h7]
  note r8 = u [THEN conjunct2, THEN conjunct2, THEN conjunct2, THEN conjunct2, THEN conjunct2,
               THEN conjunct2, THEN conjunct2, THEN conjunct1, THEN mp, OF h8]
  have h9: "errorMessage None ''timeout of 25000ms exceeded'' = Some ''timeout of 25000ms exceeded''"
    by (simp add: errorMessage_simps)
  note r9 = handler_exceptions_contained [where resp = None
               and message = "''timeout of 25000ms exceeded''"
               and printed = "''timeout of 25000ms exceeded''" and q = "''cats''" and n = None,
               THEN conjunct2, THEN conjunct2, THEN conjunct2, THEN conjunct2, THEN conjunct2,
               THEN conjunct2, THEN conjunct2, THEN conjunct2, THEN mp, OF h9, THEN conjunct1]
  have s9: "web_search_handler (failing_post (AxiosError None ''timeout of 25000ms exceeded''))
              ''cats'' None =
       Returns \<lparr>content = [\<lparr>ctype = ''text'',
                   ctext = ''Search error (unknown): timeout of 25000ms exceeded''\<rparr>],
                isError = Some True\<rparr>"
    using r9 by (simp add: statusCode_simps)
  have s1: "web_search_handler (failing_post ?e) ''cats'' None =
       Returns \<lparr>content = [\<lparr>ctype = ''text'', ctext = ''Search error: timeout''\<rparr>],
                isError = Some True\<rparr>"
    using r1 by simp
  have s2: "web_search_handler (answering_post ?d) ''cats'' None =
       Returns \<lparr>content = [\<lparr>ctype = ''text'',
                   ctext = ''Search error: Cannot convert object to primitive value''\<rparr>],
                isError = Some True\<rparr>"
    using r2 by (simp add: TypeError_message_def)
  have s7: "call_tool ?p ''2025-01-01T00:00:00.000Z'' [] ''crawl'' ?a
     = (Inl (McpError MethodNotFound ''Unknown tool: crawl''), [])"
    using r7 by simp
  show ?thesis
    by (intro conjI) (rule h1 s1 h2 s2 h3 r3 r4 h6 r6 h7 s7 h8 r8 h9 s9)+
qed

section \<open>Requests\<close>

lemma or_default_simps [simp]:
  "or_default None d = d"
  "or_default (Some 0) d = d"
  "n \<noteq> 0 \<Longrightarrow> or_default (Some n) d = n"
  by (simp_all add: or_default_def)


text \<open>
  Claim C6 gives the company-research tool a default result count of 10. Its request
  always carries \<^verbatim>\<open>numResults: 1\<close>; the 10 of that tool is the default number of
  subpages.
\<close>

theorem company_research_default_count_counterexample:
  "numResults (company_research_request ''exa.ai'' None None None) \<noteq> 10"
  by (simp add: company_research_request_def)

text \<open>
  Claim C6 as amended. With the result count omitted, the competitor finder asks for 10
  results, and web search, Twitter search, research-paper search and the search tool of
  version 0.2.1 ask for 5. The company-research request asks for one result whatever the
  arguments are, and for 10 subpages when that argument is omitted. No handler has a
  max-characters argument: the text budget of all these requests is 3000. The search tool
  of version 0.1.0 asks for 10 results by default and for the text without a budget, as
  the crawling request does.
\<close>

theorem default_counts_and_budget:
  "numResults (competitor_finder_request q excludeDomain None) = 10
   \<and> numResults (web_search_request q None) = 5
   \<and> numResults (twitter_search_request q None startDate endDate) = 5
   \<and> numResults (research_paper_search_request q None) = 5
   \<and> numResults (search_request q None crawl) = 5
   \<and> numResults (company_research_request q n sub target) = 1
   \<and> subpages (contents (company_research_request q n None target)) = Some 10
   \<and> text' (contents (competitor_finder_request q excludeDomain n)) = TextObject (Some 3000)
   \<and> text' (contents (web_search_request q n)) = TextObject (Some 3000)
   \<and> text' (contents (twitter_search_request q n startDate endDate)) = TextObject (Some 3000)
   \<and> text' (contents (research_paper_search_request q n)) = TextObject (Some 3000)
   \<and> text' (contents (search_request q n crawl)) = TextObject (Some 3000)
   \<and> text' (contents (company_research_request q n sub target)) = TextObject (Some 3000)
   \<and> numResults (legacy_search_request q None) = 10
   \<and> text' (contents (legacy_search_request q n)) = TextFlag True
   \<and> crawl_text (crawling_request url) = True"
  by (simp add: competitor_finder_request_def web_search_request_def twitter_search_request_def
        research_paper_search_request_def search_request_def company_research_request_def
        legacy_search_request_def crawling_request_def
        default_contents_def DEFAULT_NUM_RESULTS_def DEFAULT_MAX_CHARACTERS_def)

text \<open>
  Claim C7 says that \<^verbatim>\<open>contents.subpages\<close> is the value the caller provided. The request
  is built with \<^verbatim>\<open>subpages || 10\<close>, so a provided zero becomes 10.
\<close>

theorem company_research_subpages_zero_counterexample:
  "subpages (contents (company_research_request ''exa.ai'' None (Some 0) None)) \<noteq> Some 0"
  by (simp add: company_research_request_def)

text \<open>
  Claim C7 as amended. The request the company-research handler posts for the query
  \<open>exa.ai\<close> has category \<open>company\<close>, \<^verbatim>\<open>includeDomains\<close> equal to the one-element list
  of the query, and \<^verbatim>\<open>contents.subpages\<close> equal to the provided value when that is not
  zero, and to 10 when the argument is omitted or zero.
\<close>

theorem company_research_request_fields:
  "category (company_research_request ''exa.ai'' n sub target) = Some ''company''
   \<and> includeDomains (company_research_request ''exa.ai'' n sub target) = Some [''exa.ai'']
   \<and> query (company_research_request ''exa.ai'' n sub target) = ''exa.ai''
   \<and> subpages (contents (company_research_request ''exa.ai'' n sub target)) =
       Some (case sub of None \<Rightarrow> 10 | Some s \<Rightarrow> if s = 0 then 10 else s)
   \<and> subpages (contents (company_research_request ''exa.ai'' n None target)) = Some 10
   \<and> subpages (contents (company_research_request ''exa.ai'' n (Some 0) target)) = Some 10
   \<and> subpages (contents (company_research_request ''exa.ai'' n (Some 3) target)) = Some 3
   \<and> company_research_handler post ''exa.ai'' n sub target =
       (case post ''/search'' (company_research_request ''exa.ai'' n sub target) of
          Returns d \<Rightarrow>
            (case relay_response
                    ''No company information found. Please try a different query.'' d of
               Returns r \<Rightarrow> Returns r
             | Throws e \<Rightarrow> error_result ''Company research error'' e)
        | Throws e \<Rightarrow> error_result ''Company research error'' e)"
  by (simp add: company_research_request_def handler_cases(4) or_default_def)

theorem company_research_request_fields_witness:
  "subpages (contents (company_research_request ''exa.ai'' None (Some 3) None)) = Some 3
   \<and> category (company_research_request ''exa.ai'' None (Some 3) None) = Some ''company''
   \<and> includeDomains (company_research_request ''exa.ai'' None (Some 3) None) = Some [''exa.ai'']
   \<and> company_research_handler (answering_post empty_results_response) ''exa.ai'' None (Some 3) None
       = Returns (text_result empty_results_text)"
proof -
  note t = company_research_request_fields [where n = None and sub = "Some 3" and target = None
             and post = "answering_post empty_results_response"]
  from t have 1: "category (company_research_request ''exa.ai'' None (Some 3) None) = Some ''company''"
    by (rule conjunct1)
  from t have 2: "includeDomains (company_research_request ''exa.ai'' None (Some 3) None)
                   = Some [''exa.ai'']"
    by blast
  from t have 3: "subpages (contents (company_research_request ''exa.ai'' None (Some 3) None)) =
       Some (case Some 3 of None \<Rightarrow> 10 | Some s \<Rightarrow> if s = 0 then 10 else s)"
    by blast
  from t have 4: "company_research_handler (answering_post empty_results_response) ''exa.ai'' None
         (Some 3) None =
       (case answering_post empty_results_response ''/search''
               (company_research_request ''exa.ai'' None (Some 3) None) of
          Returns d \<Rightarrow>
            (case relay_response
                    ''No company information found. Please try a different query.'' d of
               Returns r \<Rightarrow> Returns r
             | Throws e \<Rightarrow> error_result ''Company research error'' e)
        | Throws e \<Rightarrow> error_result ''Company research error'' e)"
    by blast
  have 5: "company_research_handler (answering_post empty_results_response) ''exa.ai'' None
         (Some 3) None = Returns (text_result empty_results_text)"
    unfolding 4 by (simp add: answering_post_def relay_empty_results)
  from 1 2 3 5 show ?thesis by simp
qed


section \<open>Recent searches\<close>

lemma cache_search_cases:
  "length cache < 5 \<Longrightarrow> cache_search entry cache = entry # cache"
  "length cache \<ge> 5 \<Longrightarrow> cache_search entry cache = entry # butlast cache"
  by (auto simp: cache_search_def MAX_CACHED_SEARCHES_def Let_def)

lemma call_tool_answering:
  assumes "isValidSearchArgs arguments"
  shows "call_tool (answering_post response_data) now cache ''search'' arguments =
     (Inr (text_result (JSON_stringify response_data)),
      cache_search \<lparr>cached_query = args_query arguments, response = response_data,
                    timestamp = now\<rparr> cache)"
  using assms by (simp add: call_tool_def answering_post_def legacy_search_request_def)

text \<open>
  Claim C8. A successful search of the version 0.1.0 handler, started with a cache of at
  most five entries, leaves the cache with the new entry in front, not empty and of at
  most five entries. Below five entries nothing is dropped; at five entries exactly the
  last (oldest) one is dropped and the others keep their order. A failed call leaves the
  cache as it was.
\<close>

theorem recent_searches_bounded_fifo:
  assumes "length recentSearches \<le> 5" and "isValidSearchArgs arguments"
  shows "snd (call_tool (answering_post response_data) now recentSearches ''search'' arguments) =
           cache_search \<lparr>cached_query = args_query arguments, response = response_data,
                         timestamp = now\<rparr> recentSearches
       \<and> hd (snd (call_tool (answering_post response_data) now recentSearches ''search'' arguments))
           = \<lparr>cached_query = args_query arguments, response = response_data, timestamp = now\<rparr>
       \<and> snd (call_tool (answering_post response_data) now recentSearches ''search'' arguments) \<noteq> []
       \<and> length (snd (call_tool (answering_post response_data) now recentSearches ''search''
                        arguments)) \<le> 5
       \<and> (length recentSearches < 5 \<longrightarrow>
            snd (call_tool (answering_post response_data) now recentSearches ''search'' arguments)
              = \<lparr>cached_query = args_query arguments, response = response_data, timestamp = now\<rparr>
                # recentSearches)
       \<and> (length recentSearches = 5 \<longrightarrow>
            snd (call_tool (answering_post response_data) now recentSearches ''search'' arguments)
              = \<lparr>cached_query = args_query arguments, response = response_data, timestamp = now\<rparr>
                # butlast recentSearches)
       \<and> snd (call_tool (failing_post e) now recentSearches ''search'' arguments) = recentSearches"
proof -
  let ?entry = "\<lparr>cached_query = args_query arguments, response = response_data, timestamp = now\<rparr>"
  have s: "snd (call_tool (answering_post response_data) now recentSearches ''search'' arguments)
             = cache_search ?entry recentSearches"
    by (simp add: call_tool_answering [OF assms(2)])
  have f: "snd (call_tool (failing_post e) now recentSearches ''search'' arguments) = recentSearches"
    by (cases e) (simp_all add: call_tool_failing [OF assms(2)] split: option.split)
  show ?thesis
  proof (cases "length recentSearches < 5")
    case True
    then show ?thesis
      unfolding s f by (simp add: cache_search_cases(1))
  next
    case False
    with assms(1) have l: "length recentSearches = 5" by simp
    then have c: "cache_search ?entry recentSearches = ?entry # butlast recentSearches"
      by (simp add: cache_search_cases(2))
    show ?thesis
      unfolding s f c using l by simp
  qed
qed

theorem recent_searches_bounded_fifo_witness:
  "length [\<lparr>cached_query = ''q1'', response = JNull, timestamp = ''t1''\<rparr>,
           \<lparr>cached_query = ''q2'', response = JNull, timestamp = ''t2''\<rparr>,
           \<lparr>cached_query = ''q3'', response = JNull, timestamp = ''t3''\<rparr>,
           \<lparr>cached_query = ''q4'', response = JNull, timestamp = ''t4''\<rparr>,
           \<lparr>cached_query = ''q5'', response = JNull, timestamp = ''t5''\<rparr>] \<le> 5
   \<and> isValidSearchArgs (Some (JObj [(''query'', JStr ''cats''), (''numResults'', JNum 3)]))
   \<and> snd (call_tool (answering_post empty_results_response) ''t6''
          [\<lparr>cached_query = ''q1'', response = JNull, timestamp = ''t1''\<rparr>,
           \<lparr>cached_query = ''q2'', response = JNull, timestamp = ''t2''\<rparr>,
           \<lparr>cached_query = ''q3'', response = JNull, timestamp = ''t3''\<rparr>,
           \<lparr>cached_query = ''q4'', response = JNull, timestamp = ''t4''\<rparr>,
           \<lparr>cached_query = ''q5'', response = JNull, timestamp = ''t5''\<rparr>]
          ''search'' (Some (JObj [(''query'', JStr ''cats''), (''numResults'', JNum 3)])))
       = [\<lparr>cached_query = ''cats'', response = empty_results_response, timestamp = ''t6''\<rparr>,
          \<lparr>cached_query = ''q1'', response = JNull, timestamp = ''t1''\<rparr>,
          \<lparr>cached_query = ''q2'', response = JNull, timestamp = ''t2''\<rparr>,
          \<lparr>cached_query = ''q3'', response = JNull, timestamp = ''t3''\<rparr>,
          \<lparr>cached_query = ''q4'', response = JNull, timestamp = ''t4''\<rparr>]"
proof -
  let ?cache = "[\<lparr>cached_query = ''q1'', response = JNull, timestamp = ''t1''\<rparr>,
           \<lparr>cached_query = ''q2'', response = JNull, timestamp = ''t2''\<rparr>,
           \<lparr>cached_query = ''q3'', response = JNull, timestamp = ''t3''\<rparr>,
           \<lparr>cached_query = ''q4'', response = JNull, timestamp = ''t4''\<rparr>,
           \<lparr>cached_query = ''q5'', response = JNull, timestamp = ''t5''\<rparr>]"
  let ?args = "Some (JObj [(''query'', JStr ''cats''), (''numResults'', JNum 3)])"
  have l: "length ?cache \<le> 5" by simp
  have l5: "length ?cache = 5" by simp
  have v: "isValidSearchArgs ?args" by (simp add: isValidSearchArgs_def)
  have q: "args_query ?args = ''cats''" by (simp add: args_query_def)
  note t = recent_searches_bounded_fifo [OF l v, of empty_results_response "''t6''"]
  from t l5 have "snd (call_tool (answering_post empty_results_response) ''t6'' ?cache ''search'' ?args)
      = \<lparr>cached_query = args_query ?args, response = empty_results_response, timestamp = ''t6''\<rparr>
        # butlast ?cache" by blast
  then show ?thesis
    unfolding q using l v by simp
qed

section \<open>Listing\<close>

lemma list_tools_loop_concat:
  "list_tools_loop reg out = out @ concat (map tool_block reg)"
proof (induction reg arbitrary: out)
  case Nil
  show ?case by simp
next
  case (Cons e reg)
  obtain i t where e: "e = (i, t)" by (cases e)
  show ?case
    unfolding e by (simp add: Cons.IH tool_block_def)
qed

lemma length_tool_blocks: "length (concat (map tool_block reg)) = 4 * length reg"
  by (induction reg) (simp_all add: tool_block_def)

lemma api_key_required_otherwise:
  "\<not> argv_list_tools argv \<Longrightarrow>
     ending (index_main argv None connect toolRegistry) =
       Uncaught ''EXA_API_KEY environment variable is required''"
  by (simp add: index_main_def provided_def)

text \<open>
  Claim C9. With \<^verbatim>\<open>--list-tools\<close> the process prints the heading and then, for every
  entry of the registry in order, one block of four lines: the id and the display name,
  the description, the enabled-by-default flag as Yes or No, and an empty line. It binds
  nothing, writes nothing to the error stream and exits with status 0, whatever the value
  of the API key, also when there is none.
\<close>

theorem list_tools_prints_registry:
  assumes "argv_list_tools argv"
  shows "index_main argv API_KEY connect toolRegistry =
           \<lparr>stdout = ''Available tools:'' # concat (map tool_block toolRegistry),
            stderr = [], bound = [], ending = Exited 0\<rparr>
       \<and> tool_block (toolId, tool) =
           [''- '' @ toolId @ '': '' @ name tool,
            ''  Description: '' @ description tool,
            ''  Enabled by default: '' @ (if enabled tool then ''Yes'' else ''No''),
            []]
       \<and> length (stdout (index_main argv API_KEY connect toolRegistry)) = 1 + 4 * length toolRegistry
       \<and> ending (index_main argv None connect toolRegistry) = Exited 0"
proof -
  have m: "index_main argv k connect toolRegistry =
           \<lparr>stdout = ''Available tools:'' # concat (map tool_block toolRegistry),
            stderr = [], bound = [], ending = Exited 0\<rparr>" for k
    using assms by (simp add: index_main_def list_tools_loop_concat)
  have b: "tool_block (toolId, tool) =
           [''- '' @ toolId @ '': '' @ name tool,
            ''  Description: '' @ description tool,
            ''  Enabled by default: '' @ (if enabled tool then ''Yes'' else ''No''),
            []]"
    by (simp add: tool_block_def)
  show ?thesis
    unfolding m b by (simp add: length_tool_blocks)
qed

theorem list_tools_prints_registry_witness:
  "argv_list_tools \<lparr>argv_tools = [], argv_list_tools = True\<rparr>
   \<and> index_main \<lparr>argv_tools = [], argv_list_tools = True\<rparr> None None
        [(''web_search'', \<lparr>name = ''web_search'', description = ''Search the web'', schema = (),
            handler = (), enabled = True\<rparr>),
         (''crawling'', \<lparr>name = ''crawling'', description = ''Extract content'', schema = (),
            handler = (), enabled = False\<rparr>)]
     = \<lparr>stdout = [''Available tools:'',
                  ''- web_search: web_search'', ''  Description: Search the web'',
                  ''  Enabled by default: Yes'', [],
                  ''- crawling: crawling'', ''  Description: Extract content'',
                  ''  Enabled by default: No'', []],
         stderr = [], bound = [], ending = Exited 0\<rparr>"
proof -
  have h: "argv_list_tools \<lparr>argv_tools = [], argv_list_tools = True\<rparr>" by simp
  note t = list_tools_prints_registry [OF h, of None None
     "[(''web_search'', \<lparr>name = ''web_search'', description = ''Search the web'', schema = (),
            handler = (), enabled = True\<rparr>),
         (''crawling'', \<lparr>name = ''crawling'', description = ''Extract content'', schema = (),
            handler = (), enabled = False\<rparr>)]", THEN conjunct1]
  show ?thesis
    unfolding t using h by (simp add: tool_block_def)
qed

end
